theory Spec2Isabelle
  imports Main "HOL-Library.Sublist"
begin

section \<open>Data model\<close>

text \<open>
  Modelled from the spec: the module \<^verbatim>\<open>models\<close> (the classes Venue, Artist and Show and
  \<^verbatim>\<open>setup_db\<close>) is not among the sources. The three records carry the attributes that
  section 3 of the specification lists and that \<^verbatim>\<open>app.py\<close> reads. The primary key of an
  object is \<open>None\<close> until the row has been inserted, as for a Python object created with
  \<^verbatim>\<open>Venue()\<close>. A timestamp is an integer.
\<close>

record Venue =
  id :: "nat option"
  name :: string
  genres :: "string list"
  city :: string
  state :: string
  address :: string
  phone :: string
  website :: string
  facebook_link :: string
  seeking_talent :: bool
  seeking_description :: string
  image_link :: string

record Artist =
  id :: "nat option"
  name :: string
  genres :: "string list"
  city :: string
  state :: string
  phone :: string
  website :: string
  facebook_link :: string
  seeking_venue :: bool
  seeking_description :: string
  image_link :: string

record Show =
  id :: "nat option"
  venue_id :: nat
  artist_id :: nat
  start_time :: int

text \<open>The database: one list of rows per table.\<close>

record database =
  venue_table :: "Venue list"
  artist_table :: "Artist list"
  show_table :: "Show list"

section \<open>Requests and forms\<close>

text \<open>
  A request: \<^verbatim>\<open>request.method\<close> (the routes with a form accept GET and POST only) and
  \<^verbatim>\<open>request.form\<close>.
\<close>

datatype http_method = GET | POST

record 'f request =
  request_method :: http_method
  form :: 'f

text \<open>\<^verbatim>\<open>request.form.get(key, default)\<close> on the dictionary of submitted fields.\<close>

definition form_get :: "(string \<rightharpoonup> string) \<Rightarrow> string \<Rightarrow> string \<Rightarrow> string" where
  "form_get args key dflt = (case args key of None \<Rightarrow> dflt | Some v \<Rightarrow> v)"

text \<open>
  Modelled from the spec: the module \<^verbatim>\<open>forms\<close> (VenueForm, ArtistForm, ShowForm) is not among
  the sources. A form holds one value for each attribute of its entity other than the
  primary key; its validators are a parameter \<open>valid\<close> of every handler that validates.
\<close>

record VenueForm =
  name :: string
  genres :: "string list"
  city :: string
  state :: string
  address :: string
  phone :: string
  website :: string
  facebook_link :: string
  seeking_talent :: bool
  seeking_description :: string
  image_link :: string

record ArtistForm =
  name :: string
  genres :: "string list"
  city :: string
  state :: string
  phone :: string
  website :: string
  facebook_link :: string
  seeking_venue :: bool
  seeking_description :: string
  image_link :: string

record ShowForm =
  venue_id :: nat
  artist_id :: nat
  start_time :: int

text \<open>
  \<^verbatim>\<open>form.validate_on_submit()\<close>: true only for a POST request whose form passes its
  validators (the comment at lines 187-188 of \<^verbatim>\<open>app.py\<close>).
\<close>

definition validate_on_submit :: "('f \<Rightarrow> bool) \<Rightarrow> 'f request \<Rightarrow> 'f \<Rightarrow> bool" where
  "validate_on_submit valid req frm = (request_method req = POST \<and> valid frm)"

text \<open>
  \<^verbatim>\<open>Venue()\<close>, \<^verbatim>\<open>Artist()\<close>, \<^verbatim>\<open>Show()\<close>: objects with no attribute set and no primary
  key. Every attribute other than the key is overwritten by \<open>populate_obj\<close> before the
  object is used.
\<close>

definition new_Venue :: Venue where
  "new_Venue = \<lparr>Venue.id = None, name = [], genres = [], city = [], state = [], address = [],
     phone = [], website = [], facebook_link = [], seeking_talent = False,
     seeking_description = [], image_link = []\<rparr>"

definition new_Artist :: Artist where
  "new_Artist = \<lparr>Artist.id = None, name = [], genres = [], city = [], state = [], phone = [],
     website = [], facebook_link = [], seeking_venue = False, seeking_description = [],
     image_link = []\<rparr>"

definition new_Show :: Show where
  "new_Show = \<lparr>Show.id = None, venue_id = 0, artist_id = 0, start_time = 0\<rparr>"

text \<open>\<^verbatim>\<open>form.populate_obj(obj)\<close>: every field of the form is copied onto the object.\<close>

definition populate_venue :: "VenueForm \<Rightarrow> Venue \<Rightarrow> Venue" where
  "populate_venue frm venue = venue\<lparr>
     Venue.name := VenueForm.name frm,
     Venue.genres := VenueForm.genres frm,
     Venue.city := VenueForm.city frm,
     Venue.state := VenueForm.state frm,
     Venue.address := VenueForm.address frm,
     Venue.phone := VenueForm.phone frm,
     Venue.website := VenueForm.website frm,
     Venue.facebook_link := VenueForm.facebook_link frm,
     Venue.seeking_talent := VenueForm.seeking_talent frm,
     Venue.seeking_description := VenueForm.seeking_description frm,
     Venue.image_link := VenueForm.image_link frm\<rparr>"

definition populate_artist :: "ArtistForm \<Rightarrow> Artist \<Rightarrow> Artist" where
  "populate_artist frm artist = artist\<lparr>
     Artist.name := ArtistForm.name frm,
     Artist.genres := ArtistForm.genres frm,
     Artist.city := ArtistForm.city frm,
     Artist.state := ArtistForm.state frm,
     Artist.phone := ArtistForm.phone frm,
     Artist.website := ArtistForm.website frm,
     Artist.facebook_link := ArtistForm.facebook_link frm,
     Artist.seeking_venue := ArtistForm.seeking_venue frm,
     Artist.seeking_description := ArtistForm.seeking_description frm,
     Artist.image_link := ArtistForm.image_link frm\<rparr>"

definition populate_show :: "ShowForm \<Rightarrow> Show \<Rightarrow> Show" where
  "populate_show frm show = show\<lparr>
     Show.venue_id := ShowForm.venue_id frm,
     Show.artist_id := ShowForm.artist_id frm,
     Show.start_time := ShowForm.start_time frm\<rparr>"

text \<open>
  \<^verbatim>\<open>VenueForm(obj=venue)\<close>, \<^verbatim>\<open>ArtistForm(obj=artist)\<close>: the submitted fields on a POST
  request, the attributes of the stored object otherwise.
\<close>

definition venue_form :: "VenueForm request \<Rightarrow> Venue \<Rightarrow> VenueForm" where
  "venue_form req venue =
     (if request_method req = POST then form req
      else \<lparr>VenueForm.name = Venue.name venue, genres = Venue.genres venue,
        city = Venue.city venue, state = Venue.state venue, address = Venue.address venue,
        phone = Venue.phone venue, website = Venue.website venue,
        facebook_link = Venue.facebook_link venue,
        seeking_talent = Venue.seeking_talent venue,
        seeking_description = Venue.seeking_description venue,
        image_link = Venue.image_link venue\<rparr>)"

definition artist_form :: "ArtistForm request \<Rightarrow> Artist \<Rightarrow> ArtistForm" where
  "artist_form req artist =
     (if request_method req = POST then form req
      else \<lparr>ArtistForm.name = Artist.name artist, genres = Artist.genres artist,
        city = Artist.city artist, state = Artist.state artist, phone = Artist.phone artist,
        website = Artist.website artist, facebook_link = Artist.facebook_link artist,
        seeking_venue = Artist.seeking_venue artist,
        seeking_description = Artist.seeking_description artist,
        image_link = Artist.image_link artist\<rparr>)"

section \<open>The SQL operator ILIKE\<close>

text \<open>
  \<^verbatim>\<open>column.ilike(pattern)\<close> is evaluated by the database engine: both sides are brought to
  lower case (here the letters A to Z) and matched with LIKE, where \<open>%\<close> stands for any sequence of characters and
  \<open>_\<close> for any single character. Engines differ on the escape character: with \<open>bs\<close>
  true a backslash makes the next pattern character literal (PostgreSQL, MySQL), with
  \<open>bs\<close> false a backslash is an ordinary character (SQLite, standard SQL). A pattern that
  ends in a lone escape character matches nothing here; the patterns built in
  \<^verbatim>\<open>app.py\<close> end in \<open>%\<close> and never reach that case.
\<close>

definition lower_char :: "char \<Rightarrow> char" where
  "lower_char c =
     (case map_of (zip ''ABCDEFGHIJKLMNOPQRSTUVWXYZ'' ''abcdefghijklmnopqrstuvwxyz'') c of
        None \<Rightarrow> c
      | Some d \<Rightarrow> d)"

definition lower :: "string \<Rightarrow> string" where
  "lower s = map lower_char s"

fun like_match :: "bool \<Rightarrow> string \<Rightarrow> string \<Rightarrow> bool" where
  "like_match bs [] s = (s = [])"
| "like_match bs (p # ps) s =
     (if p = CHR ''%'' then
        like_match bs ps s \<or> (case s of [] \<Rightarrow> False | c # cs \<Rightarrow> like_match bs (p # ps) cs)
      else if p = CHR ''_'' then
        (case s of [] \<Rightarrow> False | c # cs \<Rightarrow> like_match bs ps cs)
      else if bs \<and> p = CHR 0x5C then
        (case ps of
           [] \<Rightarrow> False
         | q # qs \<Rightarrow> (case s of [] \<Rightarrow> False | c # cs \<Rightarrow> c = q \<and> like_match bs qs cs))
      else
        (case s of [] \<Rightarrow> False | c # cs \<Rightarrow> c = p \<and> like_match bs ps cs))"

definition ilike :: "bool \<Rightarrow> string \<Rightarrow> string \<Rightarrow> bool" where
  "ilike bs s pattern = like_match bs (lower pattern) (lower s)"

text \<open>
  The reading of the specification, for comparison with \<open>ilike\<close>: \<open>s\<close> contains the term
  \<open>t\<close> as a contiguous substring, upper and lower case letters taken as equal.
\<close>

definition ci_contains :: "string \<Rightarrow> string \<Rightarrow> bool" where
  "ci_contains s t = sublist (lower t) (lower s)"

text \<open>A term with no character that LIKE reads as a wildcard or as an escape.\<close>

definition plain_term :: "bool \<Rightarrow> string \<Rightarrow> bool" where
  "plain_term bs t =
     (CHR ''%'' \<notin> set t \<and> CHR ''_'' \<notin> set t \<and> \<not> (bs \<and> CHR 0x5C \<in> set t))"

section \<open>Read-only handlers\<close>

datatype error = NotFound | SQLAlchemyError

text \<open>\<^verbatim>\<open>Model.query.get_or_404(ident)\<close>: the row with that primary key, or a 404 abort.\<close>

definition get_or_404 :: "('a \<Rightarrow> nat option) \<Rightarrow> 'a list \<Rightarrow> nat \<Rightarrow> error + 'a" where
  "get_or_404 key rows ident =
     (case find (\<lambda>r. key r = Some ident) rows of None \<Rightarrow> Inl NotFound | Some r \<Rightarrow> Inr r)"

text \<open>
  The delete routes \<^verbatim>\<open>/venues/<venue_id>\<close> and \<^verbatim>\<open>/artists/<artist_id>\<close> have no
  \<^verbatim>\<open>int\<close> converter, so \<^verbatim>\<open>get_or_404\<close> is called with the text of the path and the
  database engine compares the key column with a text. What the engine makes of the text
  is not in the sources and is the parameter \<open>read_key\<close> of the delete handlers: the
  text is the key \<open>n\<close>, or it is a value that no key equals, or the engine rejects it and
  the query raises an error of the class \<^verbatim>\<open>SQLAlchemyError\<close>.
\<close>

datatype key_reading = Key nat | No_key | Rejected

definition get_or_404_str ::
  "(string \<Rightarrow> key_reading) \<Rightarrow> ('a \<Rightarrow> nat option) \<Rightarrow> 'a list \<Rightarrow> string \<Rightarrow> error + 'a" where
  "get_or_404_str read_key key rows ident =
     (case read_key ident of
        Key n \<Rightarrow> get_or_404 key rows n
      | No_key \<Rightarrow> Inl NotFound
      | Rejected \<Rightarrow> Inl SQLAlchemyError)"

text \<open>
  \<^verbatim>\<open>venues()\<close>: one group for each distinct pair of state and city, holding the venues
  of that area.
\<close>

definition venues :: "database \<Rightarrow> (string \<times> string \<times> Venue list) list" where
  "venues db =
     (let areas = remdups (map (\<lambda>v. (Venue.state v, Venue.city v)) (venue_table db))
      in map (\<lambda>(state, city).
           (city, state,
            filter (\<lambda>v. Venue.state v = state \<and> Venue.city v = city) (venue_table db))) areas)"

text \<open>\<^verbatim>\<open>artists()\<close>: the id and the name of every artist.\<close>

definition artists :: "database \<Rightarrow> (nat option \<times> string) list" where
  "artists db = map (\<lambda>a. (Artist.id a, Artist.name a)) (artist_table db)"

text \<open>
  \<^verbatim>\<open>db.session.query(Show).join(Artist).join(Venue)\<close>: a show row for each combination of
  a show with an artist row and a venue row that its foreign keys point to.
\<close>

definition show_join :: "database \<Rightarrow> (Show \<times> Artist \<times> Venue) list" where
  "show_join db =
     [(show, artist, venue).
        show \<leftarrow> show_table db,
        artist \<leftarrow> artist_table db, Artist.id artist = Some (Show.artist_id show),
        venue \<leftarrow> venue_table db, Venue.id venue = Some (Show.venue_id show)]"

text \<open>\<^verbatim>\<open>shows()\<close>, named \<open>shows_route\<close> since \<open>shows\<close> is a keyword of Isabelle.\<close>

definition shows_route :: "database \<Rightarrow> Show list" where
  "shows_route db = map fst (show_join db)"

text \<open>
  The dictionary \<^verbatim>\<open>response\<close> of the search handlers: the count and the rows of the same
  query. The template receives the term as well.
\<close>

record 'a search_response =
  count :: nat
  data :: "'a list"

definition search_venues :: "bool \<Rightarrow> (string \<rightharpoonup> string) \<Rightarrow> database \<Rightarrow> Venue search_response" where
  "search_venues bs args db =
     (let q = form_get args ''search_term'' '''';
          venues_query = filter (\<lambda>v. ilike bs (Venue.name v) (''%'' @ q @ ''%'')) (venue_table db)
      in \<lparr>count = length venues_query, data = venues_query\<rparr>)"

definition search_artists :: "bool \<Rightarrow> (string \<rightharpoonup> string) \<Rightarrow> database \<Rightarrow> Artist search_response" where
  "search_artists bs args db =
     (let q = form_get args ''search_term'' '''';
          artists_query = filter (\<lambda>a. ilike bs (Artist.name a) (''%'' @ q @ ''%'')) (artist_table db)
      in \<lparr>count = length artists_query, data = artists_query\<rparr>)"

definition search_shows :: "bool \<Rightarrow> (string \<rightharpoonup> string) \<Rightarrow> database \<Rightarrow> Show search_response" where
  "search_shows bs args db =
     (let search_term = form_get args ''search_term'' '''';
          q = ''%'' @ search_term @ ''%'';
          shows_query = map fst (filter (\<lambda>(show, artist, venue).
              ilike bs (Venue.name venue) q \<or> ilike bs (Artist.name artist) q) (show_join db))
      in \<lparr>count = length shows_query, data = shows_query\<rparr>)"

text \<open>
  The detail pages. An entry of \<^verbatim>\<open>past_shows\<close> and \<^verbatim>\<open>upcoming_shows\<close> has the same four
  keys in both handlers; the attributes of the venue or artist itself, copied one by one
  in the source, are kept together as the row \<open>subject\<close>.
\<close>

record show_entry =
  artist_id :: "nat option"
  artist_name :: string
  artist_image_link :: string
  start_time :: int

record 'a detail_page =
  subject :: 'a
  past_shows :: "show_entry list"
  past_shows_count :: nat
  upcoming_shows :: "show_entry list"
  upcoming_shows_count :: nat

text \<open>
  The two queries of \<^verbatim>\<open>show_venue\<close> (lines 99-111), each with its own reading of the
  clock; \<open>vid\<close> is the argument \<^verbatim>\<open>venue_id\<close> of the handler, \<open>aid\<close> below the
  argument \<^verbatim>\<open>artist_id\<close>: Artist joined to Show joined to Venue, filtered on the venue id, on the artist
  link and on the start time.
\<close>

definition venue_past_shows :: "database \<Rightarrow> nat \<Rightarrow> int \<Rightarrow> (Artist \<times> Show) list" where
  "venue_past_shows db vid now =
     [(artist, show).
        artist \<leftarrow> artist_table db,
        show \<leftarrow> show_table db, Some (Show.artist_id show) = Artist.id artist,
        venue \<leftarrow> venue_table db, Venue.id venue = Some (Show.venue_id show),
        Show.venue_id show = vid \<and> Some (Show.artist_id show) = Artist.id artist
          \<and> Show.start_time show < now]"

definition venue_upcoming_shows :: "database \<Rightarrow> nat \<Rightarrow> int \<Rightarrow> (Artist \<times> Show) list" where
  "venue_upcoming_shows db vid now =
     [(artist, show).
        artist \<leftarrow> artist_table db,
        show \<leftarrow> show_table db, Some (Show.artist_id show) = Artist.id artist,
        venue \<leftarrow> venue_table db, Venue.id venue = Some (Show.venue_id show),
        Show.venue_id show = vid \<and> Some (Show.artist_id show) = Artist.id artist
          \<and> Show.start_time show \<ge> now]"

definition show_venue :: "nat \<Rightarrow> int \<Rightarrow> int \<Rightarrow> database \<Rightarrow> error + Venue detail_page" where
  "show_venue vid now1 now2 db =
     (case get_or_404 Venue.id (venue_table db) vid of
        Inl e \<Rightarrow> Inl e
      | Inr venue \<Rightarrow>
          let past_shows = venue_past_shows db vid now1;
              upcoming_shows = venue_upcoming_shows db vid now2
          in Inr \<lparr>subject = venue,
               past_shows = map (\<lambda>(artist, show).
                  \<lparr>artist_id = Artist.id artist, artist_name = Artist.name artist,
                   artist_image_link = Artist.image_link artist,
                   start_time = Show.start_time show\<rparr>) past_shows,
               past_shows_count = length past_shows,
               upcoming_shows = map (\<lambda>(artist, show).
                  \<lparr>artist_id = Artist.id artist, artist_name = Artist.name artist,
                   artist_image_link = Artist.image_link artist,
                   start_time = Show.start_time show\<rparr>) upcoming_shows,
               upcoming_shows_count = length upcoming_shows\<rparr>)"

text \<open>
  The two queries of \<^verbatim>\<open>show_artist\<close> (lines 260-273): Venue joined to Show joined to
  Artist. The first filter condition compares \<^verbatim>\<open>Show.venue_id\<close> with the artist id, as the
  source does.
\<close>

definition artist_past_shows :: "database \<Rightarrow> nat \<Rightarrow> int \<Rightarrow> (Venue \<times> Show) list" where
  "artist_past_shows db aid now =
     [(venue, show).
        venue \<leftarrow> venue_table db,
        show \<leftarrow> show_table db, Some (Show.venue_id show) = Venue.id venue,
        artist \<leftarrow> artist_table db, Artist.id artist = Some (Show.artist_id show),
        Show.venue_id show = aid \<and> Some (Show.artist_id show) = Artist.id artist
          \<and> Show.start_time show < now]"

definition artist_upcoming_shows :: "database \<Rightarrow> nat \<Rightarrow> int \<Rightarrow> (Venue \<times> Show) list" where
  "artist_upcoming_shows db aid now =
     [(venue, show).
        venue \<leftarrow> venue_table db,
        show \<leftarrow> show_table db, Some (Show.venue_id show) = Venue.id venue,
        artist \<leftarrow> artist_table db, Artist.id artist = Some (Show.artist_id show),
        Show.venue_id show = aid \<and> Some (Show.artist_id show) = Artist.id artist
          \<and> Show.start_time show \<ge> now]"

definition show_artist :: "nat \<Rightarrow> int \<Rightarrow> int \<Rightarrow> database \<Rightarrow> error + Artist detail_page" where
  "show_artist aid now1 now2 db =
     (case get_or_404 Artist.id (artist_table db) aid of
        Inl e \<Rightarrow> Inl e
      | Inr artist \<Rightarrow>
          let past_shows = artist_past_shows db aid now1;
              upcoming_shows = artist_upcoming_shows db aid now2
          in Inr \<lparr>subject = artist,
               past_shows = map (\<lambda>(venue, show).
                  \<lparr>artist_id = Venue.id venue, artist_name = Venue.name venue,
                   artist_image_link = Venue.image_link venue,
                   start_time = Show.start_time show\<rparr>) past_shows,
               past_shows_count = length past_shows,
               upcoming_shows = map (\<lambda>(venue, show).
                  \<lparr>artist_id = Venue.id venue, artist_name = Venue.name venue,
                   artist_image_link = Venue.image_link venue,
                   start_time = Show.start_time show\<rparr>) upcoming_shows,
               upcoming_shows_count = length upcoming_shows\<rparr>)"

section \<open>The session and the handlers that write\<close>

text \<open>
  What a handler does to \<^verbatim>\<open>db.session\<close> and to the flash messages is explicit state: the
  committed tables, the changes added to the session and not yet committed, whether
  \<^verbatim>\<open>db.session.close()\<close> has been called, the messages flashed so far, and the calls
  made on the session in the order they were made. The session is scoped to the request,
  so every handler starts from \<open>begin_request\<close>.
\<close>

datatype session_call = Call_add | Call_delete | Call_commit | Call_rollback | Call_close

datatype change =
    Save_venue Venue
  | Save_artist Artist
  | Save_show Show
  | Delete_venue Venue
  | Delete_artist Artist

record session_state =
  tables :: database
  pending :: "change list"
  closed :: bool
  flashed :: "string list"
  calls :: "session_call list"

definition begin_request :: "database \<Rightarrow> session_state" where
  "begin_request db =
     \<lparr>tables = db, pending = [], closed = False, flashed = [], calls = []\<rparr>"

definition flash :: "string \<Rightarrow> session_state \<Rightarrow> session_state" where
  "flash message st = st\<lparr>flashed := flashed st @ [message]\<rparr>"

text \<open>
  \<^verbatim>\<open>db.session.add(obj)\<close> and \<^verbatim>\<open>db.session.delete(obj)\<close> record a change,
  \<^verbatim>\<open>db.session.rollback()\<close> discards the changes of the transaction, and
  \<^verbatim>\<open>db.session.close()\<close> releases the session, which discards them as well. Each call
  is entered in the log.
\<close>

definition session_add :: "change \<Rightarrow> session_state \<Rightarrow> session_state" where
  "session_add c st = st\<lparr>pending := pending st @ [c], calls := calls st @ [Call_add]\<rparr>"

definition session_delete :: "change \<Rightarrow> session_state \<Rightarrow> session_state" where
  "session_delete c st = st\<lparr>pending := pending st @ [c], calls := calls st @ [Call_delete]\<rparr>"

definition session_rollback :: "session_state \<Rightarrow> session_state" where
  "session_rollback st = st\<lparr>pending := [], calls := calls st @ [Call_rollback]\<rparr>"

definition session_close :: "session_state \<Rightarrow> session_state" where
  "session_close st = st\<lparr>pending := [], closed := True, calls := calls st @ [Call_close]\<rparr>"

text \<open>
  The engine gives an inserted row a primary key that no row of the table has: one more
  than the largest key in use. The object mapper writes the key back to the object, which
  is what the handler reads as \<^verbatim>\<open>venue.id\<close> after the commit.
\<close>

definition fresh_id :: "nat option list \<Rightarrow> nat" where
  "fresh_id keys = Suc (fold (\<lambda>k m. case k of None \<Rightarrow> m | Some n \<Rightarrow> max n m) keys 0)"

definition refresh_venue :: "database \<Rightarrow> Venue \<Rightarrow> Venue" where
  "refresh_venue db venue =
     (case Venue.id venue of
        None \<Rightarrow> venue\<lparr>Venue.id := Some (fresh_id (map Venue.id (venue_table db)))\<rparr>
      | Some k \<Rightarrow> venue)"

definition refresh_artist :: "database \<Rightarrow> Artist \<Rightarrow> Artist" where
  "refresh_artist db artist =
     (case Artist.id artist of
        None \<Rightarrow> artist\<lparr>Artist.id := Some (fresh_id (map Artist.id (artist_table db)))\<rparr>
      | Some k \<Rightarrow> artist)"

definition refresh_show :: "database \<Rightarrow> Show \<Rightarrow> Show" where
  "refresh_show db show =
     (case Show.id show of
        None \<Rightarrow> show\<lparr>Show.id := Some (fresh_id (map Show.id (show_table db)))\<rparr>
      | Some k \<Rightarrow> show)"

text \<open>
  Writing one change to the tables: an object without a key is inserted, an object with
  a key replaces its row, a deleted object's row is removed. A delete leaves the other
  tables as they are: whether the schema rejects or cascades it is not in the sources, a
  rejection is the outcome \<open>Raised\<close> below, and \<^verbatim>\<open>app.py\<close> reads shows only through joins
  with both parents, which drop a show whose venue or artist is gone.
\<close>

fun flush_change :: "change \<Rightarrow> database \<Rightarrow> database" where
  "flush_change (Save_venue venue) db =
     (case Venue.id venue of
        None \<Rightarrow> db\<lparr>venue_table := venue_table db @ [refresh_venue db venue]\<rparr>
      | Some k \<Rightarrow> db\<lparr>venue_table :=
          map (\<lambda>r. if Venue.id r = Some k then venue else r) (venue_table db)\<rparr>)"
| "flush_change (Save_artist artist) db =
     (case Artist.id artist of
        None \<Rightarrow> db\<lparr>artist_table := artist_table db @ [refresh_artist db artist]\<rparr>
      | Some k \<Rightarrow> db\<lparr>artist_table :=
          map (\<lambda>r. if Artist.id r = Some k then artist else r) (artist_table db)\<rparr>)"
| "flush_change (Save_show show) db =
     (case Show.id show of
        None \<Rightarrow> db\<lparr>show_table := show_table db @ [refresh_show db show]\<rparr>
      | Some k \<Rightarrow> db\<lparr>show_table :=
          map (\<lambda>r. if Show.id r = Some k then show else r) (show_table db)\<rparr>)"
| "flush_change (Delete_venue venue) db =
     db\<lparr>venue_table := filter (\<lambda>r. Venue.id r \<noteq> Venue.id venue) (venue_table db)\<rparr>"
| "flush_change (Delete_artist artist) db =
     db\<lparr>artist_table := filter (\<lambda>r. Artist.id r \<noteq> Artist.id artist) (artist_table db)\<rparr>"

text \<open>
  \<^verbatim>\<open>db.session.commit()\<close>. Whether the engine accepts the transaction is not decided by
  \<^verbatim>\<open>app.py\<close>: it is the parameter \<open>outcome\<close>. An accepted commit writes the pending
  changes in order; a rejected one raises \<^verbatim>\<open>SQLAlchemyError\<close> and writes nothing: the
  changes stay with the session, and the handler goes on from that state in its
  \<^verbatim>\<open>except\<close> clause.
\<close>

datatype commit_outcome = Committed | Raised

definition session_commit ::
  "commit_outcome \<Rightarrow> session_state \<Rightarrow> (error \<times> session_state) + session_state" where
  "session_commit outcome st =
     (case outcome of
        Raised \<Rightarrow> Inl (SQLAlchemyError, st\<lparr>calls := calls st @ [Call_commit]\<rparr>)
      | Committed \<Rightarrow>
          Inr (st\<lparr>tables := fold flush_change (pending st) (tables st), pending := [],
                 calls := calls st @ [Call_commit]\<rparr>))"

text \<open>
  What a handler returns: a rendered template with the values it is given, a redirect
  to \<^verbatim>\<open>url_for\<close> of an endpoint, a body with a status code, or the error page that
  \<^verbatim>\<open>not_found_error\<close> and \<^verbatim>\<open>server_error\<close> render for an abort with status 404 and
  for an uncaught error (status 500).
\<close>

datatype endpoint = Url_show_venue "nat option" | Url_show_artist "nat option"

datatype response =
    Render_home
  | Render_new_venue VenueForm
  | Render_edit_venue VenueForm string
  | Render_new_artist ArtistForm
  | Render_edit_artist ArtistForm string
  | Render_new_show ShowForm
  | Redirect endpoint
  | Body string nat
  | Error_page nat

fun is_redirect :: "response \<Rightarrow> bool" where
  "is_redirect (Redirect url) = True"
| "is_redirect r = False"

text \<open>
  The handlers, in the order of \<^verbatim>\<open>app.py\<close>. Each takes the validators of its form
  (\<open>valid\<close>), the outcome of the commit, the id of the path where the route has one
  (a number \<open>vid\<close>, \<open>aid\<close> for the routes with the \<^verbatim>\<open>int\<close> converter, the text
  \<open>ident\<close> with the engine's reading \<open>read_key\<close> for the delete routes), the request,
  and the tables as they are when the request arrives; it returns the final state and
  the response. \<^verbatim>\<open>print(sys.exc_info())\<close> in the \<^verbatim>\<open>except\<close> clauses writes to standard
  output and is left out.
\<close>

definition create_venue ::
  "(VenueForm \<Rightarrow> bool) \<Rightarrow> commit_outcome \<Rightarrow> VenueForm request \<Rightarrow> database
     \<Rightarrow> session_state \<times> response" where
  "create_venue valid outcome req db =
     (let st = begin_request db; frm = form req in
      if validate_on_submit valid req frm then
        let venue = populate_venue frm new_Venue;
            st1 = session_add (Save_venue venue) st
        in case session_commit outcome st1 of
             Inl (e, st2) \<Rightarrow>
               (flash (''An error occurred. Venue '' @ VenueForm.name frm
                         @ '' could not be listed.'')
                  (session_close (session_rollback st2)),
                Render_new_venue frm)
           | Inr st2 \<Rightarrow>
               let venue = refresh_venue (tables st1) venue
               in (flash (''Venue '' @ Venue.name venue @ '' was successfully listed!'') st2,
                   Redirect (Url_show_venue (Venue.id venue)))
      else (st, Render_new_venue frm))"

definition edit_venue ::
  "(VenueForm \<Rightarrow> bool) \<Rightarrow> commit_outcome \<Rightarrow> nat \<Rightarrow> VenueForm request \<Rightarrow> database
     \<Rightarrow> session_state \<times> response" where
  "edit_venue valid outcome vid req db =
     (let st = begin_request db in
      case get_or_404 Venue.id (venue_table db) vid of
        Inl e \<Rightarrow> (st, Error_page 404)
      | Inr venue \<Rightarrow>
          let frm = venue_form req venue;
              venue_name = Venue.name venue
          in if validate_on_submit valid req frm then
               let venue = populate_venue frm venue;
                   st1 = session_add (Save_venue venue) st
               in case session_commit outcome st1 of
                    Inl (e, st2) \<Rightarrow>
                      (flash (''An error occurred. Venue '' @ venue_name
                                @ '' could not be edited.'')
                         (session_close (session_rollback st2)),
                       Render_edit_venue frm venue_name)
                  | Inr st2 \<Rightarrow>
                      (flash (''Venue '' @ Venue.name venue @ '' was successfully updated!'') st2,
                       Redirect (Url_show_venue (Some vid)))
             else (st, Render_edit_venue frm venue_name))"

text \<open>
  \<^verbatim>\<open>delete_venue\<close>: \<^verbatim>\<open>get_or_404\<close> is called before the \<^verbatim>\<open>try\<close> statement is entered, so
  neither its abort (the 404 page) nor an error of the query is handled by the clauses
  of the \<^verbatim>\<open>try\<close>: an error of the query leaves the handler uncaught and is answered with
  the page of \<^verbatim>\<open>server_error\<close>, status 500. The \<^verbatim>\<open>finally\<close> clause closes the session
  after the \<^verbatim>\<open>except\<close> clause has run and after the \<^verbatim>\<open>try\<close> body has succeeded.
\<close>

definition delete_venue ::
  "(string \<Rightarrow> key_reading) \<Rightarrow> commit_outcome \<Rightarrow> string \<Rightarrow> database
     \<Rightarrow> session_state \<times> response" where
  "delete_venue read_key outcome ident db =
     (let st = begin_request db in
      case get_or_404_str read_key Venue.id (venue_table db) ident of
        Inl NotFound \<Rightarrow> (st, Error_page 404)
      | Inl SQLAlchemyError \<Rightarrow> (st, Error_page 500)
      | Inr v \<Rightarrow>
          let st1 = session_delete (Delete_venue v) st
          in case session_commit outcome st1 of
               Inl (e, st2) \<Rightarrow>
                 (session_close
                    (flash (''An error occurred. Venue '' @ Venue.name v
                              @ '' could not be deleted.'')
                       (session_rollback st2)),
                  Body [] 500)
             | Inr st2 \<Rightarrow> (session_close st2, Body [] 204))"

definition create_artist ::
  "(ArtistForm \<Rightarrow> bool) \<Rightarrow> commit_outcome \<Rightarrow> ArtistForm request \<Rightarrow> database
     \<Rightarrow> session_state \<times> response" where
  "create_artist valid outcome req db =
     (let st = begin_request db; frm = form req in
      if validate_on_submit valid req frm then
        let artist = populate_artist frm new_Artist;
            st1 = session_add (Save_artist artist) st
        in case session_commit outcome st1 of
             Inl (e, st2) \<Rightarrow>
               (session_close (session_rollback
                  (flash (''An error occurred. Artist '' @ ArtistForm.name frm
                            @ '' could not be listed.'') st2)),
                Render_new_artist frm)
           | Inr st2 \<Rightarrow>
               let artist = refresh_artist (tables st1) artist
               in (flash (''Artist '' @ Artist.name artist @ '' was successfully listed!'') st2,
                   Redirect (Url_show_artist (Artist.id artist)))
      else (st, Render_new_artist frm))"

definition edit_artist ::
  "(ArtistForm \<Rightarrow> bool) \<Rightarrow> commit_outcome \<Rightarrow> nat \<Rightarrow> ArtistForm request \<Rightarrow> database
     \<Rightarrow> session_state \<times> response" where
  "edit_artist valid outcome aid req db =
     (let st = begin_request db in
      case get_or_404 Artist.id (artist_table db) aid of
        Inl e \<Rightarrow> (st, Error_page 404)
      | Inr artist \<Rightarrow>
          let frm = artist_form req artist;
              artist_name = Artist.name artist
          in if validate_on_submit valid req frm then
               let artist = populate_artist frm artist;
                   st1 = session_add (Save_artist artist) st
               in case session_commit outcome st1 of
                    Inl (e, st2) \<Rightarrow>
                      (session_close (session_rollback
                         (flash (''An error occurred. Artist '' @ artist_name
                                   @ '' could not be edited.'') st2)),
                       Render_edit_artist frm artist_name)
                  | Inr st2 \<Rightarrow> (st2, Redirect (Url_show_artist (Some aid)))
             else (st, Render_edit_artist frm artist_name))"

text \<open>
  \<^verbatim>\<open>delete_artist\<close>: as \<^verbatim>\<open>delete_venue\<close>, with \<^verbatim>\<open>get_or_404\<close> before the \<^verbatim>\<open>try\<close>
  statement; the session is closed in the \<^verbatim>\<open>except\<close> clause only.
\<close>

definition delete_artist ::
  "(string \<Rightarrow> key_reading) \<Rightarrow> commit_outcome \<Rightarrow> string \<Rightarrow> database
     \<Rightarrow> session_state \<times> response" where
  "delete_artist read_key outcome ident db =
     (let st = begin_request db in
      case get_or_404_str read_key Artist.id (artist_table db) ident of
        Inl NotFound \<Rightarrow> (st, Error_page 404)
      | Inl SQLAlchemyError \<Rightarrow> (st, Error_page 500)
      | Inr a \<Rightarrow>
          let st1 = session_delete (Delete_artist a) st
          in case session_commit outcome st1 of
               Inl (e, st2) \<Rightarrow>
                 (session_close
                    (flash (''An error occurred. Artist '' @ Artist.name a
                              @ '' could not be deleted.'')
                       (session_rollback st2)),
                  Body [] 500)
             | Inr st2 \<Rightarrow> (st2, Body [] 204))"

definition create_show ::
  "(ShowForm \<Rightarrow> bool) \<Rightarrow> commit_outcome \<Rightarrow> ShowForm request \<Rightarrow> database
     \<Rightarrow> session_state \<times> response" where
  "create_show valid outcome req db =
     (let st = begin_request db; frm = form req in
      if validate_on_submit valid req frm then
        let show = populate_show frm new_Show;
            st1 = session_add (Save_show show) st
        in case session_commit outcome st1 of
             Inl (e, st2) \<Rightarrow>
               (flash ''An error occurred. Show could not be listed.''
                  (session_close (session_rollback st2)),
                Render_new_show frm)
           | Inr st2 \<Rightarrow> (flash ''Show was successfully listed!'' st2, Render_home)
      else (st, Render_new_show frm))"

section \<open>Integrity of the foreign keys\<close>

text \<open>
  The invariant of section 3 of the specification: the venue id and the artist id of
  every show are the key of exactly one row of their table.
\<close>

definition referential_integrity :: "database \<Rightarrow> bool" where
  "referential_integrity db =
     list_all (\<lambda>show.
        length (filter (\<lambda>artist. Artist.id artist = Some (Show.artist_id show)) (artist_table db)) = 1
      \<and> length (filter (\<lambda>venue. Venue.id venue = Some (Show.venue_id show)) (venue_table db)) = 1)
       (show_table db)"

section \<open>Example data\<close>

text \<open>
  Two venues, two artists and two shows, used where a statement is evaluated on a
  concrete database. Ann plays at the Jazz Club (venue 2), Bob at The Fillmore (venue 1).
\<close>

definition the_fillmore :: Venue where
  "the_fillmore = \<lparr>Venue.id = Some 1, name = ''The Fillmore'', genres = [''Rock'', ''Jazz''],
     city = ''San Francisco'', state = ''CA'', address = [], phone = [],
     website = [], facebook_link = [], seeking_talent = False, seeking_description = [],
     image_link = []\<rparr>"

definition jazz_club :: Venue where
  "jazz_club = \<lparr>Venue.id = Some 2, name = ''Jazz Club'', genres = [''Jazz''],
     city = ''New York'', state = ''NY'', address = [], phone = [],
     website = [], facebook_link = [], seeking_talent = True, seeking_description = [],
     image_link = []\<rparr>"

definition ann :: Artist where
  "ann = \<lparr>Artist.id = Some 1, name = ''Ann'', genres = [''Jazz''], city = ''New York'',
     state = ''NY'', phone = [], website = [], facebook_link = [], seeking_venue = False,
     seeking_description = [], image_link = []\<rparr>"

definition bob :: Artist where
  "bob = \<lparr>Artist.id = Some 3, name = ''Bob'', genres = [''Rock''], city = ''San Francisco'',
     state = ''CA'', phone = [], website = [], facebook_link = [], seeking_venue = True,
     seeking_description = [], image_link = []\<rparr>"

definition ann_at_jazz_club :: Show where
  "ann_at_jazz_club = \<lparr>Show.id = Some 1, venue_id = 2, artist_id = 1, start_time = 5\<rparr>"

definition bob_at_the_fillmore :: Show where
  "bob_at_the_fillmore = \<lparr>Show.id = Some 2, venue_id = 1, artist_id = 3, start_time = 50\<rparr>"

definition example_db :: database where
  "example_db = \<lparr>venue_table = [the_fillmore, jazz_club], artist_table = [ann, bob],
     show_table = [ann_at_jazz_club, bob_at_the_fillmore]\<rparr>"

text \<open>
  Example validators (a required name, a required start time) and example submissions:
  a new venue, the same without its name, a new name for an artist, and a show.
\<close>

definition venue_name_required :: "VenueForm \<Rightarrow> bool" where
  "venue_name_required frm = (VenueForm.name frm \<noteq> [])"

definition artist_name_required :: "ArtistForm \<Rightarrow> bool" where
  "artist_name_required frm = (ArtistForm.name frm \<noteq> [])"

definition show_time_required :: "ShowForm \<Rightarrow> bool" where
  "show_time_required frm = (ShowForm.start_time frm > 0)"

definition blue_note_form :: VenueForm where
  "blue_note_form = \<lparr>VenueForm.name = ''Blue Note'', genres = [''Jazz''], city = ''New York'',
     state = ''NY'', address = [], phone = [], website = [], facebook_link = [],
     seeking_talent = False, seeking_description = [], image_link = []\<rparr>"

definition post_blue_note :: "VenueForm request" where
  "post_blue_note = \<lparr>request_method = POST, form = blue_note_form\<rparr>"

definition post_nameless_venue :: "VenueForm request" where
  "post_nameless_venue = \<lparr>request_method = POST, form = blue_note_form\<lparr>VenueForm.name := []\<rparr>\<rparr>"

definition annie_form :: ArtistForm where
  "annie_form = \<lparr>ArtistForm.name = ''Annie'', genres = [''Jazz''], city = ''New York'',
     state = ''NY'', phone = [], website = [], facebook_link = [], seeking_venue = True,
     seeking_description = [], image_link = []\<rparr>"

definition post_annie :: "ArtistForm request" where
  "post_annie = \<lparr>request_method = POST, form = annie_form\<rparr>"

definition post_show :: "ShowForm request" where
  "post_show = \<lparr>request_method = POST,
     form = \<lparr>ShowForm.venue_id = 1, artist_id = 1, start_time = 99\<rparr>\<rparr>"

text \<open>
  An example of an engine's reading of a text as a key, strict as PostgreSQL is on the
  texts used below: a text of decimal digits is the key it denotes if that is at most
  2147483647, the largest value of the key column's type; a text of digits beyond it and
  a text with any other character is rejected.
\<close>

definition digits_key :: "string \<Rightarrow> key_reading" where
  "digits_key ident =
     (if ident \<noteq> [] \<and> list_all (\<lambda>c. c \<in> set ''0123456789'') ident then
        (let n = fold (\<lambda>c n. 10 * n + (of_char c - 48)) ident (0::nat)
         in if n \<le> 2147483647 then Key n else Rejected)
      else Rejected)"

section \<open>Facts about LIKE patterns\<close>

lemma lower_char_wild:
  "lower_char c = CHR ''%'' \<longleftrightarrow> c = CHR ''%''"
  "lower_char c = CHR ''_'' \<longleftrightarrow> c = CHR ''_''"
  "lower_char c = CHR 0x5C \<longleftrightarrow> c = CHR 0x5C"
  by (auto simp: lower_char_def split: if_splits)

lemma mem_lower: "w \<in> set (lower t) \<Longrightarrow> \<exists>c\<in>set t. lower_char c = w"
  by (auto simp: lower_def)

lemma plain_term_lower:
  assumes "plain_term bs t"
  shows "plain_term bs (lower t)"
proof -
  have "CHR ''%'' \<notin> set (lower t)"
    using assms mem_lower [of "CHR ''%''" t] lower_char_wild(1) by (auto simp: plain_term_def)
  moreover have "CHR ''_'' \<notin> set (lower t)"
    using assms mem_lower [of "CHR ''_''" t] lower_char_wild(2) by (auto simp: plain_term_def)
  moreover have "\<not> (bs \<and> CHR 0x5C \<in> set (lower t))"
    using assms mem_lower [of "CHR 0x5C" t] lower_char_wild(3) by (auto simp: plain_term_def)
  ultimately show ?thesis by (simp add: plain_term_def)
qed

lemma like_match_percent_all: "like_match bs ''%'' s"
  by (induction s) auto

lemma like_match_skip:
  "like_match bs (CHR ''%'' # ps) s \<longleftrightarrow> (\<exists>ys zs. s = ys @ zs \<and> like_match bs ps zs)"
proof (induction s)
  case Nil
  show ?case by simp
next
  case (Cons c cs)
  show ?case
  proof
    assume "like_match bs (CHR ''%'' # ps) (c # cs)"
    then consider "like_match bs ps (c # cs)" | "like_match bs (CHR ''%'' # ps) cs"
      by auto
    then show "\<exists>ys zs. c # cs = ys @ zs \<and> like_match bs ps zs"
    proof cases
      case 1
      then have "c # cs = [] @ (c # cs) \<and> like_match bs ps (c # cs)" by simp
      then show ?thesis by blast
    next
      case 2
      with Cons.IH obtain ys zs where "cs = ys @ zs" "like_match bs ps zs" by blast
      then have "c # cs = (c # ys) @ zs \<and> like_match bs ps zs" by simp
      then show ?thesis by blast
    qed
  next
    assume "\<exists>ys zs. c # cs = ys @ zs \<and> like_match bs ps zs"
    then obtain ys zs where eq: "c # cs = ys @ zs" and m: "like_match bs ps zs" by blast
    show "like_match bs (CHR ''%'' # ps) (c # cs)"
    proof (cases ys)
      case Nil
      with eq m show ?thesis by simp
    next
      case (Cons y ys')
      with eq have "cs = ys' @ zs" by simp
      with m Cons.IH have "like_match bs (CHR ''%'' # ps) cs" by blast
      then show ?thesis by simp
    qed
  qed
qed

lemma like_match_plain_prefix:
  "plain_term bs t \<Longrightarrow> like_match bs (t @ ''%'') s \<longleftrightarrow> prefix t s"
proof (induction t arbitrary: s)
  case Nil
  show ?case using like_match_percent_all by simp
next
  case (Cons p ps)
  then have "plain_term bs ps" by (auto simp: plain_term_def)
  with Cons.IH have IH: "\<And>s. like_match bs (ps @ ''%'') s \<longleftrightarrow> prefix ps s" by blast
  from Cons.prems have "p \<noteq> CHR ''%''" "p \<noteq> CHR ''_''" "\<not> (bs \<and> p = CHR 0x5C)"
    by (auto simp: plain_term_def)
  then show ?case using IH by (cases s) auto
qed

lemma like_match_contains:
  assumes "plain_term bs t"
  shows "like_match bs (CHR ''%'' # t @ ''%'') s \<longleftrightarrow> sublist t s"
proof -
  have "like_match bs (CHR ''%'' # t @ ''%'') s \<longleftrightarrow> (\<exists>ys zs. s = ys @ zs \<and> prefix t zs)"
    using like_match_skip [of bs "t @ ''%''" s] like_match_plain_prefix [OF assms] by simp
  also have "\<dots> \<longleftrightarrow> sublist t s"
    by (auto simp: sublist_def prefix_def)
  finally show ?thesis .
qed

lemma ilike_contains:
  "plain_term bs q \<Longrightarrow> ilike bs s (''%'' @ q @ ''%'') \<longleftrightarrow> ci_contains s q"
  using like_match_contains [OF plain_term_lower, of bs q "lower s"]
  by (simp add: ilike_def ci_contains_def lower_def lower_char_def)

lemma ilike_empty_term: "ilike bs s ''%%''"
  using ilike_contains [of bs "[]" s] by (simp add: plain_term_def ci_contains_def lower_def)

lemma ilike_percent_term: "ilike bs s ''%%%''"
proof -
  have "like_match bs ''%%'' (lower s)"
    using like_match_skip [of bs "''%''" "lower s"] like_match_percent_all by blast
  then have "like_match bs ''%%%'' (lower s)"
    using like_match_skip [of bs "''%%''" "lower s"] by blast
  then show ?thesis by (simp add: ilike_def lower_def lower_char_def)
qed

lemma ilike_underscore_term: "ilike bs s ''%_%'' \<longleftrightarrow> s \<noteq> []"
proof -
  have one: "like_match bs ''_%'' zs \<longleftrightarrow> zs \<noteq> []" for zs
    using like_match_percent_all by (cases zs) auto
  have "like_match bs (CHR ''%'' # ''_%'') (lower s)
      \<longleftrightarrow> (\<exists>ys zs. lower s = ys @ zs \<and> like_match bs ''_%'' zs)"
    by (rule like_match_skip)
  also have "\<dots> \<longleftrightarrow> (\<exists>ys zs. lower s = ys @ zs \<and> zs \<noteq> [])"
    by (simp only: one)
  also have "\<dots> \<longleftrightarrow> lower s \<noteq> []"
    by (metis append_Nil append_is_Nil_conv)
  finally show ?thesis by (simp add: ilike_def lower_def lower_char_def)
qed

lemma concat_map_if_single:
  "concat (map (\<lambda>x. if P x then [f x] else []) xs) = map f (filter P xs)"
  by (induction xs) auto

lemma concat_map_if:
  "concat (map (\<lambda>x. if P x then f x else []) xs) = concat (map f (filter P xs))"
  by (induction xs) auto

lemma show_join_filter:
  "show_join db =
     concat (map (\<lambda>show. concat (map (\<lambda>artist. map (\<lambda>venue. (show, artist, venue))
         (filter (\<lambda>venue. Venue.id venue = Some (Show.venue_id show)) (venue_table db)))
       (filter (\<lambda>artist. Artist.id artist = Some (Show.artist_id show)) (artist_table db))))
     (show_table db))"
  by (simp add: show_join_def concat_map_if concat_map_if_single)

lemma show_join_integrity:
  assumes "referential_integrity db"
  shows "shows_route db = show_table db"
proof -
  have "map fst (concat (map (\<lambda>show. concat (map (\<lambda>artist. map (\<lambda>venue. (show, artist, venue))
                 (filter (\<lambda>venue. Venue.id venue = Some (Show.venue_id show)) (venue_table db)))
               (filter (\<lambda>artist. Artist.id artist = Some (Show.artist_id show)) (artist_table db)))) ss))
        = ss"
    if "list_all (\<lambda>show.
        length (filter (\<lambda>artist. Artist.id artist = Some (Show.artist_id show)) (artist_table db)) = 1
      \<and> length (filter (\<lambda>venue. Venue.id venue = Some (Show.venue_id show)) (venue_table db)) = 1) ss" for ss
    using that
  proof (induction ss)
    case Nil
    show ?case by simp
  next
    case (Cons s ss)
    from Cons.prems have
      "length (filter (\<lambda>artist. Artist.id artist = Some (Show.artist_id s)) (artist_table db)) = 1"
      "length (filter (\<lambda>venue. Venue.id venue = Some (Show.venue_id s)) (venue_table db)) = 1"
      by simp_all
    then obtain a v where
      "filter (\<lambda>artist. Artist.id artist = Some (Show.artist_id s)) (artist_table db) = [a]"
      "filter (\<lambda>venue. Venue.id venue = Some (Show.venue_id s)) (venue_table db) = [v]"
      by (auto simp: length_Suc_conv)
    with Cons show ?case by simp
  qed
  from this [of "show_table db"] assms show ?thesis
    by (simp add: shows_route_def show_join_filter referential_integrity_def)
qed

section \<open>Search\<close>

text \<open>
  Claim C9. For each of the three searches the count is the number of rows returned. If
  no name matches the pattern the result is a zero count with no rows. If the term is
  empty the result is every row with the count of all rows: every venue, every artist,
  every row of the show listing, which is the whole show table when the foreign keys of
  the shows are intact.
\<close>

theorem search_count_matches_data:
  "count (search_venues bs args db) = length (data (search_venues bs args db))
   \<and> count (search_artists bs args db) = length (data (search_artists bs args db))
   \<and> count (search_shows bs args db) = length (data (search_shows bs args db))
   \<and> ((\<forall>v \<in> set (venue_table db).
          \<not> ilike bs (Venue.name v) (''%'' @ form_get args ''search_term'' [] @ ''%''))
        \<longrightarrow> search_venues bs args db = \<lparr>count = 0, data = []\<rparr>)
   \<and> ((\<forall>a \<in> set (artist_table db).
          \<not> ilike bs (Artist.name a) (''%'' @ form_get args ''search_term'' [] @ ''%''))
        \<longrightarrow> search_artists bs args db = \<lparr>count = 0, data = []\<rparr>)
   \<and> ((\<forall>(s, a, v) \<in> set (show_join db).
          \<not> ilike bs (Venue.name v) (''%'' @ form_get args ''search_term'' [] @ ''%'')
          \<and> \<not> ilike bs (Artist.name a) (''%'' @ form_get args ''search_term'' [] @ ''%''))
        \<longrightarrow> search_shows bs args db = \<lparr>count = 0, data = []\<rparr>)
   \<and> (form_get args ''search_term'' [] = []
        \<longrightarrow> search_venues bs args db
              = \<lparr>count = length (venue_table db), data = venue_table db\<rparr>
          \<and> search_artists bs args db
              = \<lparr>count = length (artist_table db), data = artist_table db\<rparr>
          \<and> search_shows bs args db
              = \<lparr>count = length (shows_route db), data = shows_route db\<rparr>
          \<and> (referential_integrity db
                \<longrightarrow> search_shows bs args db
                      = \<lparr>count = length (show_table db), data = show_table db\<rparr>))"
proof -
  have sizes:
    "count (search_venues bs args db) = length (data (search_venues bs args db))"
    "count (search_artists bs args db) = length (data (search_artists bs args db))"
    "count (search_shows bs args db) = length (data (search_shows bs args db))"
    by (simp_all add: search_venues_def search_artists_def search_shows_def Let_def)
  have none_v: "search_venues bs args db = \<lparr>count = 0, data = []\<rparr>"
    if "\<forall>v \<in> set (venue_table db).
          \<not> ilike bs (Venue.name v) (''%'' @ form_get args ''search_term'' [] @ ''%'')"
    using that by (simp add: search_venues_def Let_def filter_empty_conv)
  have none_a: "search_artists bs args db = \<lparr>count = 0, data = []\<rparr>"
    if "\<forall>a \<in> set (artist_table db).
          \<not> ilike bs (Artist.name a) (''%'' @ form_get args ''search_term'' [] @ ''%'')"
    using that by (simp add: search_artists_def Let_def filter_empty_conv)
  have none_s: "search_shows bs args db = \<lparr>count = 0, data = []\<rparr>"
    if "\<forall>(s, a, v) \<in> set (show_join db).
          \<not> ilike bs (Venue.name v) (''%'' @ form_get args ''search_term'' [] @ ''%'')
          \<and> \<not> ilike bs (Artist.name a) (''%'' @ form_get args ''search_term'' [] @ ''%'')"
  proof -
    have "filter (\<lambda>(show, artist, venue).
              ilike bs (Venue.name venue) (''%'' @ form_get args ''search_term'' [] @ ''%'')
              \<or> ilike bs (Artist.name artist) (''%'' @ form_get args ''search_term'' [] @ ''%''))
            (show_join db) = []"
      using that by (auto simp: filter_empty_conv)
    then show ?thesis by (simp add: search_shows_def Let_def)
  qed
  have all_rows:
    "search_venues bs args db = \<lparr>count = length (venue_table db), data = venue_table db\<rparr>"
    "search_artists bs args db = \<lparr>count = length (artist_table db), data = artist_table db\<rparr>"
    "search_shows bs args db = \<lparr>count = length (shows_route db), data = shows_route db\<rparr>"
    if "form_get args ''search_term'' [] = []"
    using that ilike_empty_term
    by (simp_all add: search_venues_def search_artists_def search_shows_def shows_route_def Let_def)
  show ?thesis
    using sizes none_v none_a none_s all_rows show_join_integrity [of db] by simp
qed


theorem search_count_matches_data_witness:
  "\<not> ilike True (Venue.name the_fillmore) ''%zydeco%''
   \<and> \<not> ilike True (Venue.name jazz_club) ''%zydeco%''
   \<and> search_venues True [''search_term'' \<mapsto> ''zydeco''] example_db = \<lparr>count = 0, data = []\<rparr>
   \<and> form_get Map.empty ''search_term'' [] = []
   \<and> referential_integrity example_db
   \<and> search_shows True Map.empty example_db
        = \<lparr>count = 2, data = [ann_at_jazz_club, bob_at_the_fillmore]\<rparr>"
proof -
  have no_match: "\<not> ilike True (Venue.name the_fillmore) ''%zydeco%''"
    "\<not> ilike True (Venue.name jazz_club) ''%zydeco%''"
    by code_simp+
  then have none: "\<forall>v \<in> set (venue_table example_db).
      \<not> ilike True (Venue.name v)
           (''%'' @ form_get [''search_term'' \<mapsto> ''zydeco''] ''search_term'' [] @ ''%'')"
    by (simp add: example_db_def form_get_def)
  have empty: "form_get Map.empty ''search_term'' [] = []"
    by (simp add: form_get_def)
  have ri: "referential_integrity example_db"
    by code_simp
  have rows: "show_table example_db = [ann_at_jazz_club, bob_at_the_fillmore]"
    by (simp add: example_db_def)
  have r1: "search_venues True [''search_term'' \<mapsto> ''zydeco''] example_db
      = \<lparr>count = 0, data = []\<rparr>"
    using none search_count_matches_data [of True "[''search_term'' \<mapsto> ''zydeco'']" example_db]
    by blast
  have r2: "search_shows True Map.empty example_db
      = \<lparr>count = length (show_table example_db), data = show_table example_db\<rparr>"
    using empty ri search_count_matches_data [of True Map.empty example_db]
    by blast
  show ?thesis
    using no_match r1 empty ri r2 rows by simp
qed

text \<open>
  Claim C2, as stated, fails: the term \<open>f_ll\<close> finds The Fillmore with either kind of
  engine, although the name does not contain the four characters \<open>f_ll\<close>.
\<close>

theorem search_wildcard_counterexample:
  "data (search_venues True [''search_term'' \<mapsto> ''f_ll''] example_db) = [the_fillmore]
   \<and> data (search_venues False [''search_term'' \<mapsto> ''f_ll''] example_db) = [the_fillmore]
   \<and> \<not> ci_contains (Venue.name the_fillmore) ''f_ll''"
  by code_simp

text \<open>
  Claim C2, amended. For a search term without \<open>%\<close> and \<open>_\<close> (and without a backslash
  where the engine escapes with it), the venue search returns the venues whose name
  contains the term, the artist search the artists whose name contains the term, and the
  show search the shows of the join whose venue name or artist name contains the term,
  upper and lower case taken as equal. The empty term is such a term and every name
  contains it.
\<close>

theorem search_is_substring_match:
  assumes "plain_term bs (form_get args ''search_term'' [])"
  shows
    "data (search_venues bs args db)
       = filter (\<lambda>v. ci_contains (Venue.name v) (form_get args ''search_term'' []))
           (venue_table db)
     \<and> data (search_artists bs args db)
       = filter (\<lambda>a. ci_contains (Artist.name a) (form_get args ''search_term'' []))
           (artist_table db)
     \<and> data (search_shows bs args db)
       = map fst (filter (\<lambda>(show, artist, venue).
             ci_contains (Venue.name venue) (form_get args ''search_term'' [])
           \<or> ci_contains (Artist.name artist) (form_get args ''search_term'' []))
           (show_join db))
     \<and> plain_term bs [] \<and> ci_contains s []"
proof -
  have m: "ilike bs n (CHR ''%'' # form_get args ''search_term'' [] @ ''%'')
      \<longleftrightarrow> ci_contains n (form_get args ''search_term'' [])" for n
    using ilike_contains [OF assms, of n] by simp
  have "data (search_venues bs args db)
       = filter (\<lambda>v. ci_contains (Venue.name v) (form_get args ''search_term'' []))
           (venue_table db)"
    by (simp add: search_venues_def Let_def m)
  moreover have "data (search_artists bs args db)
       = filter (\<lambda>a. ci_contains (Artist.name a) (form_get args ''search_term'' []))
           (artist_table db)"
    by (simp add: search_artists_def Let_def m)
  moreover have "data (search_shows bs args db)
       = map fst (filter (\<lambda>(show, artist, venue).
             ci_contains (Venue.name venue) (form_get args ''search_term'' [])
           \<or> ci_contains (Artist.name artist) (form_get args ''search_term'' []))
           (show_join db))"
    by (simp add: search_shows_def Let_def m)
  moreover have "plain_term bs []" "ci_contains s []"
    by (simp_all add: plain_term_def ci_contains_def lower_def)
  ultimately show ?thesis by blast
qed

theorem search_is_substring_match_witness:
  "plain_term True (form_get [''search_term'' \<mapsto> ''jazz''] ''search_term'' [])
   \<and> data (search_venues True [''search_term'' \<mapsto> ''jazz''] example_db) = [jazz_club]
   \<and> data (search_shows True [''search_term'' \<mapsto> ''jazz''] example_db) = [ann_at_jazz_club]"
proof -
  have p: "plain_term True (form_get [''search_term'' \<mapsto> ''jazz''] ''search_term'' [])"
    by code_simp
  have v: "filter (\<lambda>v. ci_contains (Venue.name v)
             (form_get [''search_term'' \<mapsto> ''jazz''] ''search_term'' []))
           (venue_table example_db) = [jazz_club]"
    by code_simp
  have s: "map fst (filter (\<lambda>(show, artist, venue).
             ci_contains (Venue.name venue) (form_get [''search_term'' \<mapsto> ''jazz''] ''search_term'' [])
           \<or> ci_contains (Artist.name artist) (form_get [''search_term'' \<mapsto> ''jazz''] ''search_term'' []))
           (show_join example_db)) = [ann_at_jazz_club]"
    by code_simp
  show ?thesis
    using p v s search_is_substring_match [OF p, of example_db] by simp
qed

text \<open>
  Claim C10. The term is put into the pattern as it is, so \<open>%\<close> and \<open>_\<close> in it are
  wildcards. The term \<open>%\<close> returns every row of each search. The term \<open>_\<close> returns
  exactly the venues (artists) whose name is not empty, and the shows of the join whose
  venue name or artist name is not empty. The rows returned are not the rows whose name
  contains the term: the venue search for \<open>j_z\<close> returns the Jazz Club and the artist
  search for \<open>_o_\<close> returns Bob, whose names do not contain these terms, the show search
  for \<open>j_z\<close> returns the show at the Jazz Club, and the venue search for \<open>%\<close> returns
  The Fillmore, whose name has no \<open>%\<close>. The same holds of the operator itself.
\<close>

theorem search_term_wildcards:
  "search_venues bs [''search_term'' \<mapsto> ''%''] db
     = \<lparr>count = length (venue_table db), data = venue_table db\<rparr>
   \<and> search_artists bs [''search_term'' \<mapsto> ''%''] db
     = \<lparr>count = length (artist_table db), data = artist_table db\<rparr>
   \<and> search_shows bs [''search_term'' \<mapsto> ''%''] db
     = \<lparr>count = length (shows_route db), data = shows_route db\<rparr>
   \<and> data (search_venues bs [''search_term'' \<mapsto> ''_''] db)
     = filter (\<lambda>v. Venue.name v \<noteq> []) (venue_table db)
   \<and> data (search_artists bs [''search_term'' \<mapsto> ''_''] db)
     = filter (\<lambda>a. Artist.name a \<noteq> []) (artist_table db)
   \<and> data (search_shows bs [''search_term'' \<mapsto> ''_''] db)
     = map fst (filter (\<lambda>(show, artist, venue).
         Venue.name venue \<noteq> [] \<or> Artist.name artist \<noteq> []) (show_join db))
   \<and> data (search_venues bs [''search_term'' \<mapsto> ''j_z''] example_db) = [jazz_club]
   \<and> \<not> ci_contains (Venue.name jazz_club) ''j_z''
   \<and> data (search_artists bs [''search_term'' \<mapsto> ''_o_''] example_db) = [bob]
   \<and> \<not> ci_contains (Artist.name bob) ''_o_''
   \<and> data (search_shows bs [''search_term'' \<mapsto> ''j_z''] example_db) = [ann_at_jazz_club]
   \<and> data (search_venues bs [''search_term'' \<mapsto> ''%''] example_db) = [the_fillmore, jazz_club]
   \<and> \<not> ci_contains (Venue.name the_fillmore) ''%''
   \<and> (ilike bs s (''%'' @ ''_'' @ ''%'') \<longleftrightarrow> s \<noteq> [])
   \<and> ilike bs ''Jazz Club'' (''%'' @ ''%'' @ ''%'') \<and> \<not> ci_contains ''Jazz Club'' ''%''
   \<and> ilike bs ''Jazz Club'' (''%'' @ ''j_z'' @ ''%'') \<and> \<not> ci_contains ''Jazz Club'' ''j_z''"
proof -
  have all: "ilike bs n (CHR ''%'' # form_get [''search_term'' \<mapsto> ''%''] ''search_term'' [] @ ''%'')"
    for n
    using ilike_percent_term [of bs n] by (simp add: form_get_def)
  have one: "ilike bs n (CHR ''%'' # form_get [''search_term'' \<mapsto> ''_''] ''search_term'' [] @ ''%'')
      \<longleftrightarrow> n \<noteq> []" for n
    using ilike_underscore_term [of bs n] by (simp add: form_get_def)
  have p1: "search_venues bs [''search_term'' \<mapsto> ''%''] d
     = \<lparr>count = length (venue_table d), data = venue_table d\<rparr>" for d
    by (simp add: search_venues_def Let_def all)
  have p2: "search_artists bs [''search_term'' \<mapsto> ''%''] db
     = \<lparr>count = length (artist_table db), data = artist_table db\<rparr>"
    by (simp add: search_artists_def Let_def all)
  have p3: "search_shows bs [''search_term'' \<mapsto> ''%''] db
     = \<lparr>count = length (shows_route db), data = shows_route db\<rparr>"
    by (simp add: search_shows_def shows_route_def Let_def all)
  have u1: "data (search_venues bs [''search_term'' \<mapsto> ''_''] db)
     = filter (\<lambda>v. Venue.name v \<noteq> []) (venue_table db)"
    by (simp add: search_venues_def Let_def one)
  have u2: "data (search_artists bs [''search_term'' \<mapsto> ''_''] db)
     = filter (\<lambda>a. Artist.name a \<noteq> []) (artist_table db)"
    by (simp add: search_artists_def Let_def one)
  have u3: "data (search_shows bs [''search_term'' \<mapsto> ''_''] db)
     = map fst (filter (\<lambda>(show, artist, venue).
         Venue.name venue \<noteq> [] \<or> Artist.name artist \<noteq> []) (show_join db))"
    by (simp add: search_shows_def Let_def one)
  have e1: "data (search_venues b [''search_term'' \<mapsto> ''j_z''] example_db) = [jazz_club]
      \<and> data (search_artists b [''search_term'' \<mapsto> ''_o_''] example_db) = [bob]
      \<and> data (search_shows b [''search_term'' \<mapsto> ''j_z''] example_db) = [ann_at_jazz_club]"
    if "b = True \<or> b = False" for b
    using that by (rule disjE) (simp, code_simp, simp, code_simp)
  have e2: "data (search_venues bs [''search_term'' \<mapsto> ''%''] example_db)
      = [the_fillmore, jazz_club]"
  proof -
    have "venue_table example_db = [the_fillmore, jazz_club]"
      by (simp add: example_db_def)
    then show ?thesis by (simp add: p1 [of example_db])
  qed
  have n1: "\<not> ci_contains (Venue.name jazz_club) ''j_z''"
    "\<not> ci_contains (Artist.name bob) ''_o_''"
    "\<not> ci_contains (Venue.name the_fillmore) ''%''"
    "\<not> ci_contains ''Jazz Club'' ''%''" "\<not> ci_contains ''Jazz Club'' ''j_z''"
    by code_simp+
  have i1: "ilike bs s (''%'' @ ''_'' @ ''%'') \<longleftrightarrow> s \<noteq> []"
    using ilike_underscore_term [of bs s] by simp
  have i2: "ilike bs ''Jazz Club'' (''%'' @ ''%'' @ ''%'')"
    using ilike_percent_term [of bs "''Jazz Club''"] by simp
  have i3: "ilike bs ''Jazz Club'' (''%'' @ ''j_z'' @ ''%'')"
    by (cases bs) (simp_all add: ilike_def lower_def lower_char_def)
  show ?thesis
    using p1 [of db] p2 p3 u1 u2 u3 e1 [of bs] e2 n1 i1 i2 i3 by blast
qed

theorem search_term_wildcards_witness:
  "data (search_venues True [''search_term'' \<mapsto> ''%''] example_db) = [the_fillmore, jazz_club]
   \<and> data (search_venues True [''search_term'' \<mapsto> ''_''] example_db) = [the_fillmore, jazz_club]
   \<and> data (search_venues True [''search_term'' \<mapsto> ''j_z''] example_db) = [jazz_club]
   \<and> ilike True ''x'' ''%_%'' \<and> \<not> ci_contains ''x'' ''_''"
proof -
  have "\<not> ci_contains ''x'' ''_''" by code_simp
  moreover have "filter (\<lambda>v. Venue.name v \<noteq> []) (venue_table example_db)
      = [the_fillmore, jazz_club]"
    by (simp add: example_db_def the_fillmore_def jazz_club_def)
  ultimately show ?thesis
    using search_term_wildcards [of True example_db "''x''"] by (simp add: example_db_def)
qed

section \<open>Create and edit\<close>

lemmas session_defs = begin_request_def flash_def session_add_def session_delete_def
  session_rollback_def session_close_def session_commit_def

lemma submitted_venue_form:
  "validate_on_submit valid req (form req) \<Longrightarrow> venue_form req venue = form req"
  by (simp add: validate_on_submit_def venue_form_def)

lemma submitted_artist_form:
  "validate_on_submit valid req (form req) \<Longrightarrow> artist_form req artist = form req"
  by (simp add: validate_on_submit_def artist_form_def)

text \<open>
  Claim C6. When the commit of a create or edit submission raises, the handler calls
  rollback and then close on the session after the failed commit, and makes no other
  call on it. It ends with the tables as they were, no pending change, the session
  closed and one flashed message that names the entity (the submitted name on create,
  the stored name on edit, the word Show for a show), and it renders the form it was
  submitted from: the new-entity form on create, the edit form on edit.
\<close>

theorem commit_failure_rolls_back:
  "(validate_on_submit valid_v req_v (form req_v) \<longrightarrow>
      create_venue valid_v Raised req_v db =
        (\<lparr>tables = db, pending = [], closed = True,
          flashed = [''An error occurred. Venue '' @ VenueForm.name (form req_v)
                       @ '' could not be listed.''],
          calls = [Call_add, Call_commit, Call_rollback, Call_close]\<rparr>,
         Render_new_venue (form req_v)))
   \<and> (validate_on_submit valid_v req_v (form req_v)
        \<and> get_or_404 Venue.id (venue_table db) vid = Inr venue \<longrightarrow>
      edit_venue valid_v Raised vid req_v db =
        (\<lparr>tables = db, pending = [], closed = True,
          flashed = [''An error occurred. Venue '' @ Venue.name venue
                       @ '' could not be edited.''],
          calls = [Call_add, Call_commit, Call_rollback, Call_close]\<rparr>,
         Render_edit_venue (form req_v) (Venue.name venue)))
   \<and> (validate_on_submit valid_a req_a (form req_a) \<longrightarrow>
      create_artist valid_a Raised req_a db =
        (\<lparr>tables = db, pending = [], closed = True,
          flashed = [''An error occurred. Artist '' @ ArtistForm.name (form req_a)
                       @ '' could not be listed.''],
          calls = [Call_add, Call_commit, Call_rollback, Call_close]\<rparr>,
         Render_new_artist (form req_a)))
   \<and> (validate_on_submit valid_a req_a (form req_a)
        \<and> get_or_404 Artist.id (artist_table db) aid = Inr artist \<longrightarrow>
      edit_artist valid_a Raised aid req_a db =
        (\<lparr>tables = db, pending = [], closed = True,
          flashed = [''An error occurred. Artist '' @ Artist.name artist
                       @ '' could not be edited.''],
          calls = [Call_add, Call_commit, Call_rollback, Call_close]\<rparr>,
         Render_edit_artist (form req_a) (Artist.name artist)))
   \<and> (validate_on_submit valid_s req_s (form req_s) \<longrightarrow>
      create_show valid_s Raised req_s db =
        (\<lparr>tables = db, pending = [], closed = True,
          flashed = [''An error occurred. Show could not be listed.''],
          calls = [Call_add, Call_commit, Call_rollback, Call_close]\<rparr>,
         Render_new_show (form req_s)))"
proof -
  have cv: "create_venue valid_v Raised req_v db =
        (\<lparr>tables = db, pending = [], closed = True,
          flashed = [''An error occurred. Venue '' @ VenueForm.name (form req_v)
                       @ '' could not be listed.''],
          calls = [Call_add, Call_commit, Call_rollback, Call_close]\<rparr>,
         Render_new_venue (form req_v))"
    if "validate_on_submit valid_v req_v (form req_v)"
    using that by (simp add: create_venue_def session_defs Let_def)
  have ev: "edit_venue valid_v Raised vid req_v db =
        (\<lparr>tables = db, pending = [], closed = True,
          flashed = [''An error occurred. Venue '' @ Venue.name venue
                       @ '' could not be edited.''],
          calls = [Call_add, Call_commit, Call_rollback, Call_close]\<rparr>,
         Render_edit_venue (form req_v) (Venue.name venue))"
    if "validate_on_submit valid_v req_v (form req_v)"
      and "get_or_404 Venue.id (venue_table db) vid = Inr venue"
    using that submitted_venue_form [OF that(1), of venue]
    by (simp add: edit_venue_def session_defs Let_def)
  have ca: "create_artist valid_a Raised req_a db =
        (\<lparr>tables = db, pending = [], closed = True,
          flashed = [''An error occurred. Artist '' @ ArtistForm.name (form req_a)
                       @ '' could not be listed.''],
          calls = [Call_add, Call_commit, Call_rollback, Call_close]\<rparr>,
         Render_new_artist (form req_a))"
    if "validate_on_submit valid_a req_a (form req_a)"
    using that by (simp add: create_artist_def session_defs Let_def)
  have ea: "edit_artist valid_a Raised aid req_a db =
        (\<lparr>tables = db, pending = [], closed = True,
          flashed = [''An error occurred. Artist '' @ Artist.name artist
                       @ '' could not be edited.''],
          calls = [Call_add, Call_commit, Call_rollback, Call_close]\<rparr>,
         Render_edit_artist (form req_a) (Artist.name artist))"
    if "validate_on_submit valid_a req_a (form req_a)"
      and "get_or_404 Artist.id (artist_table db) aid = Inr artist"
    using that submitted_artist_form [OF that(1), of artist]
    by (simp add: edit_artist_def session_defs Let_def)
  have cs: "create_show valid_s Raised req_s db =
        (\<lparr>tables = db, pending = [], closed = True,
          flashed = [''An error occurred. Show could not be listed.''],
          calls = [Call_add, Call_commit, Call_rollback, Call_close]\<rparr>,
         Render_new_show (form req_s))"
    if "validate_on_submit valid_s req_s (form req_s)"
    using that by (simp add: create_show_def session_defs Let_def)
  show ?thesis
    using cv ev ca ea cs by blast
qed

theorem commit_failure_rolls_back_witness:
  "validate_on_submit venue_name_required post_blue_note (form post_blue_note)
   \<and> get_or_404 Venue.id (venue_table example_db) 1 = Inr the_fillmore
   \<and> validate_on_submit artist_name_required post_annie (form post_annie)
   \<and> get_or_404 Artist.id (artist_table example_db) 1 = Inr ann
   \<and> validate_on_submit show_time_required post_show (form post_show)
   \<and> create_venue venue_name_required Raised post_blue_note example_db =
        (\<lparr>tables = example_db, pending = [], closed = True,
          flashed = [''An error occurred. Venue Blue Note could not be listed.''],
          calls = [Call_add, Call_commit, Call_rollback, Call_close]\<rparr>,
         Render_new_venue blue_note_form)
   \<and> edit_venue venue_name_required Raised 1 post_blue_note example_db =
        (\<lparr>tables = example_db, pending = [], closed = True,
          flashed = [''An error occurred. Venue The Fillmore could not be edited.''],
          calls = [Call_add, Call_commit, Call_rollback, Call_close]\<rparr>,
         Render_edit_venue blue_note_form ''The Fillmore'')
   \<and> create_artist artist_name_required Raised post_annie example_db =
        (\<lparr>tables = example_db, pending = [], closed = True,
          flashed = [''An error occurred. Artist Annie could not be listed.''],
          calls = [Call_add, Call_commit, Call_rollback, Call_close]\<rparr>,
         Render_new_artist annie_form)
   \<and> edit_artist artist_name_required Raised 1 post_annie example_db =
        (\<lparr>tables = example_db, pending = [], closed = True,
          flashed = [''An error occurred. Artist Ann could not be edited.''],
          calls = [Call_add, Call_commit, Call_rollback, Call_close]\<rparr>,
         Render_edit_artist annie_form ''Ann'')
   \<and> create_show show_time_required Raised post_show example_db =
        (\<lparr>tables = example_db, pending = [], closed = True,
          flashed = [''An error occurred. Show could not be listed.''],
          calls = [Call_add, Call_commit, Call_rollback, Call_close]\<rparr>,
         Render_new_show (form post_show))"
proof -
  have v: "validate_on_submit venue_name_required post_blue_note (form post_blue_note)"
    by (simp add: validate_on_submit_def venue_name_required_def post_blue_note_def
        blue_note_form_def)
  have gv: "get_or_404 Venue.id (venue_table example_db) 1 = Inr the_fillmore"
    by (simp add: get_or_404_def example_db_def the_fillmore_def)
  have a: "validate_on_submit artist_name_required post_annie (form post_annie)"
    by (simp add: validate_on_submit_def artist_name_required_def post_annie_def annie_form_def)
  have ga: "get_or_404 Artist.id (artist_table example_db) 1 = Inr ann"
    by (simp add: get_or_404_def example_db_def ann_def)
  have s: "validate_on_submit show_time_required post_show (form post_show)"
    by (simp add: validate_on_submit_def show_time_required_def post_show_def)
  have names: "VenueForm.name (form post_blue_note) = ''Blue Note''"
    "form post_blue_note = blue_note_form" "Venue.name the_fillmore = ''The Fillmore''"
    "ArtistForm.name (form post_annie) = ''Annie''" "form post_annie = annie_form"
    "Artist.name ann = ''Ann''"
    by (simp_all add: post_blue_note_def blue_note_form_def the_fillmore_def post_annie_def
        annie_form_def ann_def)
  show ?thesis
    using v gv a ga s names
      commit_failure_rolls_back [of venue_name_required post_blue_note example_db 1
        the_fillmore artist_name_required post_annie 1 ann show_time_required post_show]
    by simp
qed

text \<open>
  What a successful commit leaves behind, handler by handler: the new or changed row,
  the flashed message and the redirect. A created venue can be fetched under the id of
  the redirect.
\<close>

lemma fold_max_ge_init:
  "m \<le> fold (\<lambda>k m. case k of None \<Rightarrow> m | Some n \<Rightarrow> max n m) keys (m::nat)"
proof (induction keys arbitrary: m)
  case Nil
  show ?case by simp
next
  case (Cons k keys)
  have "m \<le> (case k of None \<Rightarrow> m | Some n \<Rightarrow> max n m)"
    by (cases k) auto
  also have "\<dots> \<le> fold (\<lambda>k m. case k of None \<Rightarrow> m | Some n \<Rightarrow> max n m) keys
      (case k of None \<Rightarrow> m | Some n \<Rightarrow> max n m)"
    by (rule Cons.IH)
  finally show ?case by simp
qed

lemma fold_max_ge_key:
  "Some n \<in> set keys \<Longrightarrow>
     n \<le> fold (\<lambda>k m. case k of None \<Rightarrow> m | Some n \<Rightarrow> max n m) keys (m::nat)"
proof (induction keys arbitrary: m)
  case Nil
  then show ?case by simp
next
  case (Cons k keys)
  show ?case
  proof (cases "k = Some n")
    case True
    have "n \<le> max n m" by simp
    also have "\<dots> \<le> fold (\<lambda>k m. case k of None \<Rightarrow> m | Some n \<Rightarrow> max n m) keys (max n m)"
      by (rule fold_max_ge_init)
    finally show ?thesis using True by simp
  next
    case False
    with Cons.prems have "Some n \<in> set keys" by simp
    then show ?thesis using Cons.IH by simp
  qed
qed

lemma fresh_id_is_new: "Some (fresh_id keys) \<notin> set keys"
  using fold_max_ge_key [of "fresh_id keys" keys 0] by (auto simp: fresh_id_def)

lemma get_or_404_key: "get_or_404 key rows ident = Inr r \<Longrightarrow> key r = Some ident \<and> r \<in> set rows"
  by (auto simp: get_or_404_def find_Some_iff split: option.splits)

lemma get_or_404_missing:
  "get_or_404 key rows ident = Inl e \<longleftrightarrow> e = NotFound \<and> (\<forall>r \<in> set rows. key r \<noteq> Some ident)"
proof (cases "find (\<lambda>r. key r = Some ident) rows")
  case None
  then have "\<forall>r \<in> set rows. key r \<noteq> Some ident"
    by (auto simp: find_None_iff)
  with None show ?thesis by (auto simp: get_or_404_def)
next
  case (Some r)
  then have "key r = Some ident \<and> r \<in> set rows"
    by (auto simp: find_Some_iff)
  with Some show ?thesis by (auto simp: get_or_404_def)
qed

lemma create_venue_success:
  assumes "validate_on_submit valid req (form req)"
  shows "create_venue valid Committed req db =
    (\<lparr>tables = db\<lparr>venue_table := venue_table db @
         [(populate_venue (form req) new_Venue)
            \<lparr>Venue.id := Some (fresh_id (map Venue.id (venue_table db)))\<rparr>]\<rparr>,
       pending = [], closed = False,
       flashed = [''Venue '' @ VenueForm.name (form req) @ '' was successfully listed!''],
       calls = [Call_add, Call_commit]\<rparr>,
     Redirect (Url_show_venue (Some (fresh_id (map Venue.id (venue_table db))))))"
  using assms
  by (simp add: create_venue_def session_defs Let_def refresh_venue_def populate_venue_def
      new_Venue_def)

lemma edit_venue_success:
  assumes "validate_on_submit valid req (form req)"
    and "get_or_404 Venue.id (venue_table db) vid = Inr venue"
  shows "edit_venue valid Committed vid req db =
    (\<lparr>tables = db\<lparr>venue_table :=
         map (\<lambda>r. if Venue.id r = Some vid then populate_venue (form req) venue else r)
           (venue_table db)\<rparr>,
       pending = [], closed = False,
       flashed = [''Venue '' @ VenueForm.name (form req) @ '' was successfully updated!''],
       calls = [Call_add, Call_commit]\<rparr>,
     Redirect (Url_show_venue (Some vid)))"
proof -
  have k: "Venue.id venue = Some vid"
    using get_or_404_key [OF assms(2)] by simp
  then have "Venue.id (populate_venue (form req) venue) = Some vid"
    "Venue.name (populate_venue (form req) venue) = VenueForm.name (form req)"
    by (simp_all add: populate_venue_def)
  then show ?thesis
    using assms submitted_venue_form [OF assms(1), of venue]
    by (simp add: edit_venue_def session_defs Let_def)
qed

lemma create_artist_success:
  assumes "validate_on_submit valid req (form req)"
  shows "create_artist valid Committed req db =
    (\<lparr>tables = db\<lparr>artist_table := artist_table db @
         [(populate_artist (form req) new_Artist)
            \<lparr>Artist.id := Some (fresh_id (map Artist.id (artist_table db)))\<rparr>]\<rparr>,
       pending = [], closed = False,
       flashed = [''Artist '' @ ArtistForm.name (form req) @ '' was successfully listed!''],
       calls = [Call_add, Call_commit]\<rparr>,
     Redirect (Url_show_artist (Some (fresh_id (map Artist.id (artist_table db))))))"
  using assms
  by (simp add: create_artist_def session_defs Let_def refresh_artist_def populate_artist_def
      new_Artist_def)

lemma edit_artist_success:
  assumes "validate_on_submit valid req (form req)"
    and "get_or_404 Artist.id (artist_table db) aid = Inr artist"
  shows "edit_artist valid Committed aid req db =
    (\<lparr>tables = db\<lparr>artist_table :=
         map (\<lambda>r. if Artist.id r = Some aid then populate_artist (form req) artist else r)
           (artist_table db)\<rparr>,
       pending = [], closed = False, flashed = [],
       calls = [Call_add, Call_commit]\<rparr>,
     Redirect (Url_show_artist (Some aid)))"
proof -
  have k: "Artist.id artist = Some aid"
    using get_or_404_key [OF assms(2)] by simp
  then have "Artist.id (populate_artist (form req) artist) = Some aid"
    by (simp add: populate_artist_def)
  then show ?thesis
    using assms submitted_artist_form [OF assms(1), of artist]
    by (simp add: edit_artist_def session_defs Let_def)
qed

lemma find_append_None: "find P xs = None \<Longrightarrow> find P (xs @ ys) = find P ys"
  by (induction xs) (auto split: if_splits)

lemma created_venue_is_retrievable:
  assumes "validate_on_submit valid req (form req)"
    and "create_venue valid Committed req db = (st, Redirect (Url_show_venue (Some k)))"
  shows "get_or_404 Venue.id (venue_table (tables st)) k
           = Inr ((populate_venue (form req) new_Venue)\<lparr>Venue.id := Some k\<rparr>)"
proof -
  let ?k = "fresh_id (map Venue.id (venue_table db))"
  from assms create_venue_success [OF assms(1), of db]
  have k: "k = ?k"
    and st: "venue_table (tables st) = venue_table db @
        [(populate_venue (form req) new_Venue)\<lparr>Venue.id := Some ?k\<rparr>]"
    by auto
  have "find (\<lambda>r. Venue.id r = Some ?k) (venue_table db) = None"
    using fresh_id_is_new [of "map Venue.id (venue_table db)"]
    by (force simp: find_None_iff)
  then show ?thesis
    by (simp add: get_or_404_def st k find_append_None)
qed

text \<open>
  Claim C3 says that a create or edit of a venue or artist that validates and commits
  answers with a redirect to the detail page together with a success message. The
  handler \<^verbatim>\<open>edit_artist\<close> redirects and flashes nothing: a valid new name for the artist
  Ann, committed, leaves the list of flashed messages empty, where the same edit of a
  venue flashes that the venue was updated.
\<close>

theorem edit_artist_success_without_flash:
  "validate_on_submit artist_name_required post_annie (form post_annie)
   \<and> get_or_404 Artist.id (artist_table example_db) 1 = Inr ann
   \<and> snd (edit_artist artist_name_required Committed 1 post_annie example_db)
       = Redirect (Url_show_artist (Some 1))
   \<and> flashed (fst (edit_artist artist_name_required Committed 1 post_annie example_db)) = []
   \<and> validate_on_submit venue_name_required post_blue_note (form post_blue_note)
   \<and> snd (edit_venue venue_name_required Committed 1 post_blue_note example_db)
       = Redirect (Url_show_venue (Some 1))
   \<and> flashed (fst (edit_venue venue_name_required Committed 1 post_blue_note example_db))
       = [''Venue Blue Note was successfully updated!'']"
  by code_simp

text \<open>
  Claim C4, as stated, fails: a valid show whose commit succeeds is answered with the
  home page itself, which is not a redirect.
\<close>

theorem create_show_redirect_counterexample:
  "validate_on_submit show_time_required post_show (form post_show)
   \<and> snd (create_show show_time_required Committed post_show example_db) = Render_home
   \<and> \<not> is_redirect (snd (create_show show_time_required Committed post_show example_db))"
  by code_simp

text \<open>
  Claim C4, amended. A show submission that validates and whose commit succeeds adds
  the show to the table, flashes the message that the show was listed and renders the
  home page directly, without a redirect.
\<close>

theorem create_show_success_renders_home:
  assumes "validate_on_submit valid req (form req)"
  shows "create_show valid Committed req db =
    (\<lparr>tables = db\<lparr>show_table := show_table db @
         [\<lparr>Show.id = Some (fresh_id (map Show.id (show_table db))),
           venue_id = ShowForm.venue_id (form req),
           artist_id = ShowForm.artist_id (form req),
           start_time = ShowForm.start_time (form req)\<rparr>]\<rparr>,
       pending = [], closed = False, flashed = [''Show was successfully listed!''],
       calls = [Call_add, Call_commit]\<rparr>,
     Render_home)"
  using assms
  by (simp add: create_show_def session_defs Let_def refresh_show_def populate_show_def
      new_Show_def)

theorem create_show_success_renders_home_witness:
  "validate_on_submit show_time_required post_show (form post_show)
   \<and> create_show show_time_required Committed post_show example_db =
    (\<lparr>tables = example_db\<lparr>show_table := [ann_at_jazz_club, bob_at_the_fillmore,
         \<lparr>Show.id = Some 3, venue_id = 1, artist_id = 1, start_time = 99\<rparr>]\<rparr>,
       pending = [], closed = False, flashed = [''Show was successfully listed!''],
       calls = [Call_add, Call_commit]\<rparr>,
     Render_home)"
proof -
  have v: "validate_on_submit show_time_required post_show (form post_show)"
    by (simp add: validate_on_submit_def show_time_required_def post_show_def)
  have k: "fresh_id [Show.id ann_at_jazz_club, Show.id bob_at_the_fillmore] = 3"
    by code_simp
  have f: "form post_show = \<lparr>ShowForm.venue_id = 1, artist_id = 1, start_time = 99\<rparr>"
    "show_table example_db = [ann_at_jazz_club, bob_at_the_fillmore]"
    by (simp_all add: post_show_def example_db_def)
  show ?thesis
    using v create_show_success_renders_home [OF v, of example_db] by (simp add: k f)
qed

text \<open>
  Claim C5, as stated, fails: an edit submission with a missing name for an id that has
  no row is answered with the not-found page, not with the form.
\<close>

theorem edit_missing_row_counterexample:
  "\<not> validate_on_submit venue_name_required post_nameless_venue (form post_nameless_venue)
   \<and> edit_venue venue_name_required Committed 9 post_nameless_venue example_db
       = (begin_request example_db, Error_page 404)"
  by code_simp

text \<open>
  Claim C5, amended. When validation fails, a create handler leaves the tables as they
  were, adds nothing to the session, flashes nothing and renders its form again; an edit
  handler does the same when the row exists, and answers with the not-found page, the
  tables unchanged, when it does not.
\<close>

theorem validation_failure_changes_nothing:
  "(\<not> validate_on_submit valid_v req_v (form req_v) \<longrightarrow>
      create_venue valid_v outcome req_v db = (begin_request db, Render_new_venue (form req_v))
      \<and> edit_venue valid_v outcome vid req_v db =
          (begin_request db,
           case get_or_404 Venue.id (venue_table db) vid of
             Inl e \<Rightarrow> Error_page 404
           | Inr venue \<Rightarrow> Render_edit_venue (venue_form req_v venue) (Venue.name venue)))
   \<and> (\<not> validate_on_submit valid_a req_a (form req_a) \<longrightarrow>
      create_artist valid_a outcome req_a db = (begin_request db, Render_new_artist (form req_a))
      \<and> edit_artist valid_a outcome aid req_a db =
          (begin_request db,
           case get_or_404 Artist.id (artist_table db) aid of
             Inl e \<Rightarrow> Error_page 404
           | Inr artist \<Rightarrow> Render_edit_artist (artist_form req_a artist) (Artist.name artist)))
   \<and> (\<not> validate_on_submit valid_s req_s (form req_s) \<longrightarrow>
      create_show valid_s outcome req_s db = (begin_request db, Render_new_show (form req_s)))
   \<and> tables (begin_request db) = db \<and> pending (begin_request db) = []
   \<and> flashed (begin_request db) = [] \<and> calls (begin_request db) = []"
proof -
  have nv: "\<not> validate_on_submit valid_v req_v (venue_form req_v venue)"
    if "\<not> validate_on_submit valid_v req_v (form req_v)" for venue
    using that by (auto simp: validate_on_submit_def venue_form_def)
  have na: "\<not> validate_on_submit valid_a req_a (artist_form req_a artist)"
    if "\<not> validate_on_submit valid_a req_a (form req_a)" for artist
    using that by (auto simp: validate_on_submit_def artist_form_def)
  have cv: "create_venue valid_v outcome req_v db = (begin_request db, Render_new_venue (form req_v))"
    if "\<not> validate_on_submit valid_v req_v (form req_v)"
    using that by (simp add: create_venue_def Let_def)
  have ev: "edit_venue valid_v outcome vid req_v db =
          (begin_request db,
           case get_or_404 Venue.id (venue_table db) vid of
             Inl e \<Rightarrow> Error_page 404
           | Inr venue \<Rightarrow> Render_edit_venue (venue_form req_v venue) (Venue.name venue))"
    if "\<not> validate_on_submit valid_v req_v (form req_v)"
    using nv [OF that] by (simp add: edit_venue_def Let_def split: sum.splits)
  have ca: "create_artist valid_a outcome req_a db = (begin_request db, Render_new_artist (form req_a))"
    if "\<not> validate_on_submit valid_a req_a (form req_a)"
    using that by (simp add: create_artist_def Let_def)
  have ea: "edit_artist valid_a outcome aid req_a db =
          (begin_request db,
           case get_or_404 Artist.id (artist_table db) aid of
             Inl e \<Rightarrow> Error_page 404
           | Inr artist \<Rightarrow> Render_edit_artist (artist_form req_a artist) (Artist.name artist))"
    if "\<not> validate_on_submit valid_a req_a (form req_a)"
    using na [OF that] by (simp add: edit_artist_def Let_def split: sum.splits)
  have cs: "create_show valid_s outcome req_s db = (begin_request db, Render_new_show (form req_s))"
    if "\<not> validate_on_submit valid_s req_s (form req_s)"
    using that by (simp add: create_show_def Let_def)
  have b: "tables (begin_request db) = db" "pending (begin_request db) = []"
    "flashed (begin_request db) = []" "calls (begin_request db) = []"
    by (simp_all add: begin_request_def)
  show ?thesis
    using cv ev ca ea cs b by blast
qed

theorem validation_failure_changes_nothing_witness:
  "\<not> validate_on_submit venue_name_required post_nameless_venue (form post_nameless_venue)
   \<and> create_venue venue_name_required Committed post_nameless_venue example_db
       = (\<lparr>tables = example_db, pending = [], closed = False, flashed = [],
            calls = []\<rparr>,
          Render_new_venue (form post_nameless_venue))
   \<and> edit_venue venue_name_required Committed 1 post_nameless_venue example_db
       = (\<lparr>tables = example_db, pending = [], closed = False, flashed = [],
            calls = []\<rparr>,
          Render_edit_venue (form post_nameless_venue) ''The Fillmore'')
   \<and> \<not> validate_on_submit artist_name_required (post_annie\<lparr>request_method := GET\<rparr>)
         (form (post_annie\<lparr>request_method := GET\<rparr>))
   \<and> edit_artist artist_name_required Committed 7 (post_annie\<lparr>request_method := GET\<rparr>) example_db
       = (\<lparr>tables = example_db, pending = [], closed = False, flashed = [],
            calls = []\<rparr>, Error_page 404)
   \<and> \<not> validate_on_submit show_time_required (post_show\<lparr>request_method := GET\<rparr>)
         (form (post_show\<lparr>request_method := GET\<rparr>))
   \<and> create_show show_time_required Committed (post_show\<lparr>request_method := GET\<rparr>) example_db
       = (\<lparr>tables = example_db, pending = [], closed = False, flashed = [],
            calls = []\<rparr>,
          Render_new_show (form post_show))"
proof -
  have v: "\<not> validate_on_submit venue_name_required post_nameless_venue
             (form post_nameless_venue)"
    by (simp add: validate_on_submit_def venue_name_required_def post_nameless_venue_def)
  have a: "\<not> validate_on_submit artist_name_required (post_annie\<lparr>request_method := GET\<rparr>)
         (form (post_annie\<lparr>request_method := GET\<rparr>))"
    by (simp add: validate_on_submit_def)
  have s: "\<not> validate_on_submit show_time_required (post_show\<lparr>request_method := GET\<rparr>)
         (form (post_show\<lparr>request_method := GET\<rparr>))"
    by (simp add: validate_on_submit_def)
  have gv: "get_or_404 Venue.id (venue_table example_db) (Suc 0) = Inr the_fillmore"
    by (simp add: get_or_404_def example_db_def the_fillmore_def)
  have ga: "get_or_404 Artist.id (artist_table example_db) 7 = Inl NotFound"
    by (simp add: get_or_404_def example_db_def ann_def bob_def)
  have f: "venue_form post_nameless_venue the_fillmore = form post_nameless_venue"
    "Venue.name the_fillmore = ''The Fillmore''"
    by (simp_all add: venue_form_def post_nameless_venue_def the_fillmore_def)
  show ?thesis
    using v a s
      validation_failure_changes_nothing [of venue_name_required post_nameless_venue
        Committed example_db 1 artist_name_required "post_annie\<lparr>request_method := GET\<rparr>" 7
        show_time_required "post_show\<lparr>request_method := GET\<rparr>"]
    by (simp add: gv ga f begin_request_def)
qed

section \<open>Delete\<close>

lemma get_or_404_str_found:
  "get_or_404_str read_key key rows ident = Inr r \<longleftrightarrow>
     (\<exists>n. read_key ident = Key n \<and> get_or_404 key rows n = Inr r)"
  by (cases "read_key ident") (auto simp: get_or_404_str_def)

lemma get_or_404_str_key:
  "get_or_404_str read_key key rows ident = Inr r \<Longrightarrow> key r \<noteq> None"
  using get_or_404_key [of key rows _ r] by (auto simp: get_or_404_str_found)

lemma delete_venue_missing:
  "get_or_404_str read_key Venue.id (venue_table db) ident = Inl NotFound \<Longrightarrow>
     delete_venue read_key outcome ident db = (begin_request db, Error_page 404)"
  by (simp add: delete_venue_def Let_def)

lemma delete_venue_rejected:
  "get_or_404_str read_key Venue.id (venue_table db) ident = Inl SQLAlchemyError \<Longrightarrow>
     delete_venue read_key outcome ident db = (begin_request db, Error_page 500)"
  by (simp add: delete_venue_def Let_def)

lemma delete_venue_committed:
  assumes "get_or_404_str read_key Venue.id (venue_table db) ident = Inr v"
  shows "delete_venue read_key Committed ident db =
    (\<lparr>tables = db\<lparr>venue_table := filter (\<lambda>r. Venue.id r \<noteq> Venue.id v) (venue_table db)\<rparr>,
       pending = [], closed = True, flashed = [],
       calls = [Call_delete, Call_commit, Call_close]\<rparr>,
     Body [] 204)"
  using assms by (simp add: delete_venue_def session_defs Let_def)

lemma delete_venue_raised:
  assumes "get_or_404_str read_key Venue.id (venue_table db) ident = Inr v"
  shows "delete_venue read_key Raised ident db =
    (\<lparr>tables = db, pending = [], closed = True,
       flashed = [''An error occurred. Venue '' @ Venue.name v @ '' could not be deleted.''],
       calls = [Call_delete, Call_commit, Call_rollback, Call_close]\<rparr>,
     Body [] 500)"
  using assms by (simp add: delete_venue_def session_defs Let_def)

lemma delete_artist_missing:
  "get_or_404_str read_key Artist.id (artist_table db) ident = Inl NotFound \<Longrightarrow>
     delete_artist read_key outcome ident db = (begin_request db, Error_page 404)"
  by (simp add: delete_artist_def Let_def)

lemma delete_artist_rejected:
  "get_or_404_str read_key Artist.id (artist_table db) ident = Inl SQLAlchemyError \<Longrightarrow>
     delete_artist read_key outcome ident db = (begin_request db, Error_page 500)"
  by (simp add: delete_artist_def Let_def)

lemma delete_artist_committed:
  assumes "get_or_404_str read_key Artist.id (artist_table db) ident = Inr a"
  shows "delete_artist read_key Committed ident db =
    (\<lparr>tables = db\<lparr>artist_table := filter (\<lambda>r. Artist.id r \<noteq> Artist.id a) (artist_table db)\<rparr>,
       pending = [], closed = False, flashed = [], calls = [Call_delete, Call_commit]\<rparr>,
     Body [] 204)"
  using assms by (simp add: delete_artist_def session_defs Let_def)

lemma delete_artist_raised:
  assumes "get_or_404_str read_key Artist.id (artist_table db) ident = Inr a"
  shows "delete_artist read_key Raised ident db =
    (\<lparr>tables = db, pending = [], closed = True,
       flashed = [''An error occurred. Artist '' @ Artist.name a @ '' could not be deleted.''],
       calls = [Call_delete, Call_commit, Call_rollback, Call_close]\<rparr>,
     Body [] 500)"
  using assms by (simp add: delete_artist_def session_defs Let_def)

lemma get_or_404_removed:
  "get_or_404 key (filter (\<lambda>r. key r \<noteq> Some ident) rows) ident = Inl NotFound"
  using get_or_404_missing [of key "filter (\<lambda>r. key r \<noteq> Some ident) rows" ident NotFound]
  by simp

lemma show_venue_removed:
  "show_venue vid now1 now2
     (db\<lparr>venue_table := filter (\<lambda>r. Venue.id r \<noteq> Some vid) (venue_table db)\<rparr>) = Inl NotFound"
  by (simp add: show_venue_def get_or_404_removed)

lemma show_artist_removed:
  "show_artist aid now1 now2
     (db\<lparr>artist_table := filter (\<lambda>r. Artist.id r \<noteq> Some aid) (artist_table db)\<rparr>) = Inl NotFound"
  by (simp add: show_artist_def get_or_404_removed)

lemma venues_removed:
  "\<forall>(city, state, rows) \<in> set (venues
      (db\<lparr>venue_table := filter (\<lambda>r. Venue.id r \<noteq> Some vid) (venue_table db)\<rparr>)).
     \<forall>r \<in> set rows. Venue.id r \<noteq> Some vid"
  by (auto simp: venues_def Let_def)

lemma artists_removed:
  "\<forall>(k, n) \<in> set (artists
      (db\<lparr>artist_table := filter (\<lambda>r. Artist.id r \<noteq> Some aid) (artist_table db)\<rparr>)).
     k \<noteq> Some aid"
  by (auto simp: artists_def)

text \<open>
  For an id that the engine reads as a key, the delete handlers do what claim C7 says:
  the not-found page and unchanged tables when no row has the key; on a successful
  commit the row removed, an empty body with status 204, and the key gone from the
  detail page and from the listing; on a failed commit a rollback after the commit,
  the tables unchanged, one failure message and an empty body with status 500.
\<close>

lemma delete_venue_of_key:
  assumes "read_key ident = Key n"
  shows "get_or_404 Venue.id (venue_table db) n = Inl NotFound \<Longrightarrow>
      delete_venue read_key outcome ident db = (begin_request db, Error_page 404)"
    and "get_or_404 Venue.id (venue_table db) n = Inr v \<Longrightarrow>
      delete_venue read_key Committed ident db =
        (\<lparr>tables = db\<lparr>venue_table := filter (\<lambda>r. Venue.id r \<noteq> Some n) (venue_table db)\<rparr>,
           pending = [], closed = True, flashed = [],
           calls = [Call_delete, Call_commit, Call_close]\<rparr>,
         Body [] 204)"
    and "get_or_404 Venue.id (venue_table db) n = Inr v \<Longrightarrow>
      show_venue n now1 now2 (tables (fst (delete_venue read_key Committed ident db)))
        = Inl NotFound"
    and "get_or_404 Venue.id (venue_table db) n = Inr v \<Longrightarrow>
      \<forall>(city, state, rows) \<in> set (venues (tables (fst (delete_venue read_key Committed ident db)))).
        \<forall>r \<in> set rows. Venue.id r \<noteq> Some n"
    and "get_or_404 Venue.id (venue_table db) n = Inr v \<Longrightarrow>
      delete_venue read_key Raised ident db =
        (\<lparr>tables = db, pending = [], closed = True,
           flashed = [''An error occurred. Venue '' @ Venue.name v
                        @ '' could not be deleted.''],
           calls = [Call_delete, Call_commit, Call_rollback, Call_close]\<rparr>,
         Body [] 500)"
proof -
  show "delete_venue read_key outcome ident db = (begin_request db, Error_page 404)"
    if "get_or_404 Venue.id (venue_table db) n = Inl NotFound"
    using that assms by (intro delete_venue_missing) (simp add: get_or_404_str_def)
  assume found: "get_or_404 Venue.id (venue_table db) n = Inr v"
  then have str: "get_or_404_str read_key Venue.id (venue_table db) ident = Inr v"
    using assms by (simp add: get_or_404_str_def)
  have k: "Venue.id v = Some n"
    using get_or_404_key [OF found] by simp
  show c: "delete_venue read_key Committed ident db =
        (\<lparr>tables = db\<lparr>venue_table := filter (\<lambda>r. Venue.id r \<noteq> Some n) (venue_table db)\<rparr>,
           pending = [], closed = True, flashed = [],
           calls = [Call_delete, Call_commit, Call_close]\<rparr>,
         Body [] 204)"
    using delete_venue_committed [OF str] k by simp
  show "show_venue n now1 now2 (tables (fst (delete_venue read_key Committed ident db)))
        = Inl NotFound"
    by (simp add: c show_venue_removed)
  show "\<forall>(city, state, rows) \<in> set (venues (tables (fst (delete_venue read_key Committed ident db)))).
        \<forall>r \<in> set rows. Venue.id r \<noteq> Some n"
    using venues_removed [where db = db and vid = n] by (simp add: c)
  show "delete_venue read_key Raised ident db =
        (\<lparr>tables = db, pending = [], closed = True,
           flashed = [''An error occurred. Venue '' @ Venue.name v
                        @ '' could not be deleted.''],
           calls = [Call_delete, Call_commit, Call_rollback, Call_close]\<rparr>,
         Body [] 500)"
    by (rule delete_venue_raised [OF str])
qed

lemma delete_artist_of_key:
  assumes "read_key ident = Key n"
  shows "get_or_404 Artist.id (artist_table db) n = Inl NotFound \<Longrightarrow>
      delete_artist read_key outcome ident db = (begin_request db, Error_page 404)"
    and "get_or_404 Artist.id (artist_table db) n = Inr a \<Longrightarrow>
      delete_artist read_key Committed ident db =
        (\<lparr>tables = db\<lparr>artist_table := filter (\<lambda>r. Artist.id r \<noteq> Some n) (artist_table db)\<rparr>,
           pending = [], closed = False, flashed = [], calls = [Call_delete, Call_commit]\<rparr>,
         Body [] 204)"
    and "get_or_404 Artist.id (artist_table db) n = Inr a \<Longrightarrow>
      show_artist n now1 now2 (tables (fst (delete_artist read_key Committed ident db)))
        = Inl NotFound"
    and "get_or_404 Artist.id (artist_table db) n = Inr a \<Longrightarrow>
      \<forall>(k, name) \<in> set (artists (tables (fst (delete_artist read_key Committed ident db)))).
        k \<noteq> Some n"
    and "get_or_404 Artist.id (artist_table db) n = Inr a \<Longrightarrow>
      delete_artist read_key Raised ident db =
        (\<lparr>tables = db, pending = [], closed = True,
           flashed = [''An error occurred. Artist '' @ Artist.name a
                        @ '' could not be deleted.''],
           calls = [Call_delete, Call_commit, Call_rollback, Call_close]\<rparr>,
         Body [] 500)"
proof -
  show "delete_artist read_key outcome ident db = (begin_request db, Error_page 404)"
    if "get_or_404 Artist.id (artist_table db) n = Inl NotFound"
    using that assms by (intro delete_artist_missing) (simp add: get_or_404_str_def)
  assume found: "get_or_404 Artist.id (artist_table db) n = Inr a"
  then have str: "get_or_404_str read_key Artist.id (artist_table db) ident = Inr a"
    using assms by (simp add: get_or_404_str_def)
  have k: "Artist.id a = Some n"
    using get_or_404_key [OF found] by simp
  show c: "delete_artist read_key Committed ident db =
        (\<lparr>tables = db\<lparr>artist_table := filter (\<lambda>r. Artist.id r \<noteq> Some n) (artist_table db)\<rparr>,
           pending = [], closed = False, flashed = [], calls = [Call_delete, Call_commit]\<rparr>,
         Body [] 204)"
    using delete_artist_committed [OF str] k by simp
  show "show_artist n now1 now2 (tables (fst (delete_artist read_key Committed ident db)))
        = Inl NotFound"
    by (simp add: c show_artist_removed)
  show "\<forall>(k, name) \<in> set (artists (tables (fst (delete_artist read_key Committed ident db)))).
        k \<noteq> Some n"
    using artists_removed [where db = db and aid = n] by (simp add: c)
  show "delete_artist read_key Raised ident db =
        (\<lparr>tables = db, pending = [], closed = True,
           flashed = [''An error occurred. Artist '' @ Artist.name a
                        @ '' could not be deleted.''],
           calls = [Call_delete, Call_commit, Call_rollback, Call_close]\<rparr>,
         Body [] 500)"
    by (rule delete_artist_raised [OF str])
qed

text \<open>
  Claim C7 says that a delete request for an id that has no row is answered with
  not-found. The delete routes take the id as text and look it up outside the
  \<^verbatim>\<open>try\<close> statement: with an engine that rejects a text that is not a key of the
  column's type, the ids \<open>abc\<close> and \<open>99999999999\<close>, which no row has, are answered with
  the page of status 500, for venues and for artists; the id \<open>9\<close>, which no row has
  either, is answered with the not-found page.
\<close>

theorem delete_of_rejected_id_is_server_error:
  "digits_key ''abc'' = Rejected \<and> digits_key ''99999999999'' = Rejected
   \<and> digits_key ''9'' = Key 9
   \<and> delete_venue digits_key Committed ''abc'' example_db
       = (begin_request example_db, Error_page 500)
   \<and> delete_venue digits_key Committed ''99999999999'' example_db
       = (begin_request example_db, Error_page 500)
   \<and> delete_artist digits_key Committed ''abc'' example_db
       = (begin_request example_db, Error_page 500)
   \<and> delete_artist digits_key Committed ''99999999999'' example_db
       = (begin_request example_db, Error_page 500)
   \<and> delete_venue digits_key Committed ''9'' example_db
       = (begin_request example_db, Error_page 404)
   \<and> delete_artist digits_key Committed ''9'' example_db
       = (begin_request example_db, Error_page 404)"
proof -
  have r: "digits_key ''abc'' = Rejected" "digits_key ''99999999999'' = Rejected"
    "digits_key ''9'' = Key 9"
    by (simp_all add: digits_key_def)
  have nv: "get_or_404 Venue.id (venue_table example_db) 9 = Inl NotFound"
    by (simp add: get_or_404_def example_db_def the_fillmore_def jazz_club_def)
  have na: "get_or_404 Artist.id (artist_table example_db) 9 = Inl NotFound"
    by (simp add: get_or_404_def example_db_def ann_def bob_def)
  show ?thesis
    using r nv na
    by (simp add: delete_venue_def delete_artist_def get_or_404_str_def Let_def)
qed

text \<open>
  Claim C8. A request starts with the session not closed. When the row exists,
  \<^verbatim>\<open>delete_venue\<close> ends with the session closed whether the commit succeeds or raises,
  close being its last call on the session; \<^verbatim>\<open>delete_artist\<close> ends with the session
  closed when the commit raises and leaves it open, with no call of close, when the
  commit succeeds.
\<close>

theorem delete_closes_session:
  "\<not> closed (begin_request db)
   \<and> (get_or_404_str read_key Venue.id (venue_table db) ident = Inr v \<longrightarrow>
        closed (fst (delete_venue read_key Committed ident db))
        \<and> calls (fst (delete_venue read_key Committed ident db))
            = [Call_delete, Call_commit, Call_close]
        \<and> closed (fst (delete_venue read_key Raised ident db))
        \<and> calls (fst (delete_venue read_key Raised ident db))
            = [Call_delete, Call_commit, Call_rollback, Call_close])
   \<and> (get_or_404_str read_key Artist.id (artist_table db) ident = Inr a \<longrightarrow>
        \<not> closed (fst (delete_artist read_key Committed ident db))
        \<and> calls (fst (delete_artist read_key Committed ident db)) = [Call_delete, Call_commit]
        \<and> closed (fst (delete_artist read_key Raised ident db))
        \<and> calls (fst (delete_artist read_key Raised ident db))
            = [Call_delete, Call_commit, Call_rollback, Call_close])"
proof -
  have "\<not> closed (begin_request db)"
    by (simp add: begin_request_def)
  moreover have "closed (fst (delete_venue read_key Committed ident db))"
    "calls (fst (delete_venue read_key Committed ident db))
       = [Call_delete, Call_commit, Call_close]"
    "closed (fst (delete_venue read_key Raised ident db))"
    "calls (fst (delete_venue read_key Raised ident db))
       = [Call_delete, Call_commit, Call_rollback, Call_close]"
    if "get_or_404_str read_key Venue.id (venue_table db) ident = Inr v"
    by (simp_all add: delete_venue_committed [OF that] delete_venue_raised [OF that])
  moreover have "\<not> closed (fst (delete_artist read_key Committed ident db))"
    "calls (fst (delete_artist read_key Committed ident db)) = [Call_delete, Call_commit]"
    "closed (fst (delete_artist read_key Raised ident db))"
    "calls (fst (delete_artist read_key Raised ident db))
       = [Call_delete, Call_commit, Call_rollback, Call_close]"
    if "get_or_404_str read_key Artist.id (artist_table db) ident = Inr a"
    by (simp_all add: delete_artist_committed [OF that] delete_artist_raised [OF that])
  ultimately show ?thesis by blast
qed

theorem delete_closes_session_witness:
  "get_or_404_str digits_key Venue.id (venue_table example_db) ''1'' = Inr the_fillmore
   \<and> closed (fst (delete_venue digits_key Committed ''1'' example_db))
   \<and> closed (fst (delete_venue digits_key Raised ''1'' example_db))
   \<and> get_or_404_str digits_key Artist.id (artist_table example_db) ''1'' = Inr ann
   \<and> \<not> closed (fst (delete_artist digits_key Committed ''1'' example_db))
   \<and> closed (fst (delete_artist digits_key Raised ''1'' example_db))"
proof -
  have gv: "get_or_404_str digits_key Venue.id (venue_table example_db) ''1'' = Inr the_fillmore"
    by (simp add: get_or_404_str_def digits_key_def get_or_404_def example_db_def
        the_fillmore_def)
  have ga: "get_or_404_str digits_key Artist.id (artist_table example_db) ''1'' = Inr ann"
    by (simp add: get_or_404_str_def digits_key_def get_or_404_def example_db_def ann_def)
  show ?thesis
    using gv ga delete_closes_session [of example_db digits_key "''1''" the_fillmore ann]
    by blast
qed

section \<open>Detail pages\<close>

text \<open>
  The venue page: with one reading of the clock for both queries, a show of the venue
  whose artist row exists is in the past list exactly if it starts before that time, in
  the upcoming list exactly if it does not, so in exactly one of the two.
\<close>

lemma venue_past_shows_iff:
  "(artist, show) \<in> set (venue_past_shows db vid now) \<longleftrightarrow>
     artist \<in> set (artist_table db) \<and> show \<in> set (show_table db)
     \<and> Artist.id artist = Some (Show.artist_id show) \<and> Show.venue_id show = vid
     \<and> (\<exists>venue \<in> set (venue_table db). Venue.id venue = Some vid)
     \<and> Show.start_time show < now"
  by (auto simp: venue_past_shows_def)

lemma venue_upcoming_shows_iff:
  "(artist, show) \<in> set (venue_upcoming_shows db vid now) \<longleftrightarrow>
     artist \<in> set (artist_table db) \<and> show \<in> set (show_table db)
     \<and> Artist.id artist = Some (Show.artist_id show) \<and> Show.venue_id show = vid
     \<and> (\<exists>venue \<in> set (venue_table db). Venue.id venue = Some vid)
     \<and> now \<le> Show.start_time show"
  by (auto simp: venue_upcoming_shows_def)

lemma show_venue_partitions:
  assumes "get_or_404 Venue.id (venue_table db) vid = Inr venue"
    and "show \<in> set (show_table db)" and "Show.venue_id show = vid"
    and "artist \<in> set (artist_table db)" and "Artist.id artist = Some (Show.artist_id show)"
  shows "(artist, show) \<in> set (venue_past_shows db vid now)
           \<longleftrightarrow> Show.start_time show < now"
    and "(artist, show) \<in> set (venue_upcoming_shows db vid now)
           \<longleftrightarrow> now \<le> Show.start_time show"
    and "(artist, show) \<in> set (venue_past_shows db vid now)
           \<longleftrightarrow> (artist, show) \<notin> set (venue_upcoming_shows db vid now)"
  using assms get_or_404_key [OF assms(1)]
  by (auto simp: venue_past_shows_iff venue_upcoming_shows_iff)

text \<open>
  Claim C1 says that the detail page of an artist puts every show of that artist in
  exactly one of the past and the upcoming list. \<^verbatim>\<open>show_artist\<close> selects the shows whose
  venue id equals the artist id: for the artist Ann (id 1), whose one show at the Jazz
  Club (venue 2) started at time 5, the page at time 10 has no past show, and lists as
  upcoming the show at The Fillmore (venue 1), which is a show of Bob (artist 3).
\<close>

theorem show_artist_misses_own_show:
  "get_or_404 Artist.id (artist_table example_db) 1 = Inr ann
   \<and> ann_at_jazz_club \<in> set (show_table example_db)
   \<and> Show.artist_id ann_at_jazz_club = 1
   \<and> Show.start_time ann_at_jazz_club < 10
   \<and> Show.artist_id bob_at_the_fillmore = 3
   \<and> show_artist 1 10 10 example_db =
       Inr \<lparr>subject = ann, past_shows = [], past_shows_count = 0,
            upcoming_shows = [\<lparr>artist_id = Some 1, artist_name = ''The Fillmore'',
                                artist_image_link = [], start_time = 50\<rparr>],
            upcoming_shows_count = 1\<rparr>"
  by code_simp

end
